theory Spec2Isabelle
  imports Complex_Main "HOL-Library.Char_ord" "HOL-Library.List_Lexorder"
begin

section \<open>The Python values the server computes with\<close>

text \<open>
  The two entry points (\<^verbatim>\<open>k8s_mcp_server_http.py\<close> and \<^verbatim>\<open>k8s_mcp_server_local.py\<close>)
  are Python. Their report builders work on strings, on Python floats and on the typed
  objects of the Kubernetes client. This section fixes how those values are represented.

  \<^item> A Python \<^verbatim>\<open>str\<close> is a \<^typ>\<open>string\<close> holding its UTF-8 bytes. Every needle the
    source searches for or strips (\<^verbatim>\<open>n u m Ki Mi Gi :\<close>) is ASCII, and an ASCII byte never
    occurs inside a multi-byte UTF-8 sequence, so these operations agree with Python's
    on code points, as does the order of strings. The box-drawing and tick glyphs of
    the reports are spelled as bytes.
  \<^item> A Python \<^verbatim>\<open>float\<close> is an IEEE-754 binary64 value: a finite one is carried by its
    exact rational value, and every operation rounds its exact result to the nearest
    binary64 (ties to even), overflowing to an infinity and underflowing gradually.
  \<^item> An exception is a value of \<^verbatim>\<open>exn\<close>; a computation that may raise returns
    \<^verbatim>\<open>exn + 'a\<close>, with \<^verbatim>\<open>Inl\<close> the raised exception.
  \<^item> What Python does by its Unicode tables or by the steps of its sorting algorithm is
    not fixed here: it is a parameter, the record \<^verbatim>\<open>python\<close> below.
\<close>

subsection \<open>Exceptions\<close>

text \<open>
  \<^verbatim>\<open>ApiException\<close> carries its HTTP \<^verbatim>\<open>status\<close> and the text \<^verbatim>\<open>str(e)\<close> gives for it.
  \<^verbatim>\<open>ValueError\<close> is what \<^verbatim>\<open>float()\<close> raises; it carries the offending string.
  \<^verbatim>\<open>ZeroDivisionError\<close> is what \<^verbatim>\<open>//\<close> raises on a zero divisor. \<^verbatim>\<open>OtherException\<close>
  stands for any other subclass of \<^verbatim>\<open>Exception\<close> a client call raises, carrying its
  \<^verbatim>\<open>str(e)\<close>.
\<close>

datatype exn =
    ApiException int string
  | ConfigException string
  | ValueError string
  | ZeroDivisionError
  | OtherException string

subsection \<open>Floats and numbers, as data\<close>

text \<open>
  A float is finite (with its exact value), negative zero, an infinity or NaN.

  The accumulators \<^verbatim>\<open>total_cpu\<close> and \<^verbatim>\<open>total_mem\<close> of \<^verbatim>\<open>get_resource_usage\<close> start as the
  \<^verbatim>\<open>int\<close> \<^verbatim>\<open>0\<close> and become a \<^verbatim>\<open>float\<close> with the first \<^verbatim>\<open>+=\<close>: Python prints the two
  differently (\<^verbatim>\<open>0\<close> against \<^verbatim>\<open>0.0\<close>). \<^verbatim>\<open>PyZero\<close> is that \<^verbatim>\<open>int\<close>, the only one these
  variables ever hold.
\<close>

datatype pyfloat = Fin rat | NegZero | PosInf | NegInf | NaN

datatype pynum = PyZero | PyFloat pyfloat

text \<open>An entry of \<^verbatim>\<open>pods_with_usage\<close>.\<close>

record pod_usage =
  pu_name :: string
  pu_namespace :: string
  pu_cpu :: pynum
  pu_memory :: pynum

subsection \<open>The parameters of the Python runtime\<close>

text \<open>
  Four things the source gets from Python depend on the version of the interpreter
  and of its Unicode tables, and are taken as they come:
  \<^item> \<open>float_non_ascii s\<close>: \<^verbatim>\<open>float(s)\<close> for a string that is not ASCII (Python accepts the
    decimal digits and the white space of every script), \<open>None\<close> when it raises
    \<^verbatim>\<open>ValueError\<close>;
  \<^item> \<open>repr_non_ascii s\<close>: \<^verbatim>\<open>repr(s)\<close> for such a string (which characters are printable is
    a matter of the tables);
  \<^item> \<open>sort_nan_keys xs\<close>: the list that
    \<^verbatim>\<open>xs.sort(key=lambda x: x['cpu'], reverse=True)\<close> leaves when some key is NaN (the
    comparisons are then no order, and the result is whatever the steps of the algorithm
    make of them);
  \<^item> \<open>zero_division_message\<close>: the \<^verbatim>\<open>str(e)\<close> of a \<^verbatim>\<open>ZeroDivisionError\<close>.
  On ASCII strings and on keys without NaN everything is defined below.
\<close>

record python =
  float_non_ascii :: "string \<Rightarrow> pyfloat option"
  repr_non_ascii :: "string \<Rightarrow> string"
  sort_nan_keys :: "pod_usage list \<Rightarrow> pod_usage list"
  zero_division_message :: string

subsection \<open>Strings\<close>

definition is_digit :: "char \<Rightarrow> bool" where
  "is_digit c = (c \<in> set ''0123456789'')"

definition digit_val :: "char \<Rightarrow> nat" where
  "digit_val c = of_char c - 48"

definition digit_char :: "nat \<Rightarrow> char" where
  "digit_char d = ''0123456789'' ! d"

text \<open>\<^verbatim>\<open>str(n)\<close> of a non-negative integer, and of any integer.\<close>

fun str_nat :: "nat \<Rightarrow> string" where
  "str_nat n = (if n < 10 then [digit_char n] else str_nat (n div 10) @ [digit_char (n mod 10)])"

declare str_nat.simps [simp del]

definition str_int :: "int \<Rightarrow> string" where
  "str_int i = (if i < 0 then CHR ''-'' # str_nat (nat (- i)) else str_nat (nat i))"

text \<open>\<^verbatim>\<open>sub in s\<close>: \<^verbatim>\<open>sub\<close> occurs in \<^verbatim>\<open>s\<close> as a contiguous substring.\<close>

fun py_in :: "string \<Rightarrow> string \<Rightarrow> bool" where
  "py_in sub [] = (sub = [])"
| "py_in sub (c # s) = (take (length sub) (c # s) = sub \<or> py_in sub s)"

text \<open>\<^verbatim>\<open>s.rstrip(chars)\<close>: drops from the right end every character that is in the set
  \<^verbatim>\<open>chars\<close> (a set of characters, not a suffix).\<close>

definition rstrip :: "string \<Rightarrow> string \<Rightarrow> string" where
  "rstrip chars s = rev (dropWhile (\<lambda>c. c \<in> set chars) (rev s))"

text \<open>\<^verbatim>\<open>s.rsplit(sep, 1)[1]\<close> for a one-character \<^verbatim>\<open>sep\<close> that occurs in \<^verbatim>\<open>s\<close>: the part
  after the last occurrence.\<close>

definition after_last :: "char \<Rightarrow> string \<Rightarrow> string" where
  "after_last sep s = rev (takeWhile (\<lambda>c. c \<noteq> sep) (rev s))"

text \<open>A string is ASCII when no byte has its top bit set.\<close>

definition is_ascii :: "string \<Rightarrow> bool" where
  "is_ascii s = list_all (\<lambda>c. \<not> digit7 c) s"

text \<open>\<^verbatim>\<open>repr(s)\<close> of a string, as it appears in the message of \<^verbatim>\<open>float()\<close>'s
  \<^verbatim>\<open>ValueError\<close>. For an ASCII string: quoted with \<^verbatim>\<open>'\<close> unless the string holds a \<^verbatim>\<open>'\<close>
  and no \<^verbatim>\<open>"\<close>, with backslash, the quote and the control characters escaped.\<close>

definition hex_digit :: "nat \<Rightarrow> char" where
  "hex_digit d = ''0123456789abcdef'' ! d"

definition repr_char :: "char \<Rightarrow> char \<Rightarrow> string" where
  "repr_char q c =
     (if c = CHR 0x5C then [CHR 0x5C, CHR 0x5C]
      else if c = q then [CHR 0x5C, q]
      else if c = CHR 0x0A then [CHR 0x5C, CHR ''n'']
      else if c = CHR 0x0D then [CHR 0x5C, CHR ''r'']
      else if c = CHR 0x09 then [CHR 0x5C, CHR ''t'']
      else if (of_char c :: nat) < 32 \<or> c = CHR 0x7F
        then [CHR 0x5C, CHR ''x'', hex_digit (of_char c div 16), hex_digit (of_char c mod 16)]
      else [c])"

definition repr_str :: "python \<Rightarrow> string \<Rightarrow> string" where
  "repr_str py s =
     (if is_ascii s then
        (let q = (if CHR 0x27 \<in> set s \<and> CHR 0x22 \<notin> set s then CHR 0x22 else CHR 0x27)
         in q # concat (map (repr_char q) s) @ [q])
      else repr_non_ascii py s)"

text \<open>\<^verbatim>\<open>str(e)\<close>.\<close>

fun exn_str :: "python \<Rightarrow> exn \<Rightarrow> string" where
  "exn_str py (ApiException status msg) = msg"
| "exn_str py (ConfigException msg) = msg"
| "exn_str py (ValueError s) = ''could not convert string to float: '' @ repr_str py s"
| "exn_str py ZeroDivisionError = zero_division_message py"
| "exn_str py (OtherException msg) = msg"

subsection \<open>Float arithmetic\<close>

definition pow2 :: "int \<Rightarrow> rat" where
  "pow2 k = (if 0 \<le> k then 2 ^ nat k else 1 / 2 ^ nat (- k))"

definition pow10 :: "int \<Rightarrow> rat" where
  "pow10 k = (if 0 \<le> k then 10 ^ nat k else 1 / 10 ^ nat (- k))"

fun bit_length :: "nat \<Rightarrow> nat" where
  "bit_length n = (if n = 0 then 0 else Suc (bit_length (n div 2)))"

declare bit_length.simps [simp del]

text \<open>\<open>floor_log2 q\<close> is the integer \<open>k\<close> with \<open>2^k \<le> q < 2^(k+1)\<close>, for \<open>q > 0\<close>.\<close>

definition floor_log2 :: "rat \<Rightarrow> int" where
  "floor_log2 q =
     (if 1 \<le> q then int (bit_length (nat \<lfloor>q\<rfloor>)) - 1
      else - int (bit_length (nat (\<lceil>1 / q\<rceil> - 1))))"

definition round_half_even :: "rat \<Rightarrow> int" where
  "round_half_even q =
     (let f = \<lfloor>q\<rfloor>; r = q - of_int f
      in if r < 1 / 2 then f else if 1 / 2 < r then f + 1 else if even f then f else f + 1)"

text \<open>
  Rounding a magnitude \<open>a \<ge> 0\<close> to binary64: 53 significant bits, the quantum never
  below \<open>2^-1074\<close> (gradual underflow); \<open>None\<close> is overflow.
\<close>

definition round_mag :: "rat \<Rightarrow> rat option" where
  "round_mag a =
     (if a = 0 then Some 0
      else let e = max (floor_log2 a - 52) (- 1074);
               r = of_int (round_half_even (a / pow2 e)) * pow2 e
           in if pow2 1024 \<le> r then None else Some r)"

text \<open>The float of sign \<open>neg\<close> and exact magnitude \<open>a\<close>.\<close>

definition mk_float :: "bool \<Rightarrow> rat \<Rightarrow> pyfloat" where
  "mk_float neg a =
     (case round_mag a of
        None \<Rightarrow> (if neg then NegInf else PosInf)
      | Some r \<Rightarrow> (if r = 0 then (if neg then NegZero else Fin 0)
                   else Fin (if neg then - r else r)))"

text \<open>\<^verbatim>\<open>x / c\<close> and \<^verbatim>\<open>x * c\<close> for a float \<^verbatim>\<open>x\<close> and a positive constant \<^verbatim>\<open>c\<close> that is itself
  a binary64 (every divisor and factor of the source is one: \<^verbatim>\<open>1e9\<close>, \<^verbatim>\<open>1e6\<close>, \<^verbatim>\<open>1e3\<close>,
  \<^verbatim>\<open>1000\<close>, \<^verbatim>\<open>1000000\<close>, \<^verbatim>\<open>1024\<close>, \<^verbatim>\<open>1024*1024\<close>, \<^verbatim>\<open>1024**3\<close>).\<close>

fun fdiv :: "pyfloat \<Rightarrow> rat \<Rightarrow> pyfloat" where
  "fdiv (Fin r) c = mk_float (r < 0) (\<bar>r\<bar> / c)"
| "fdiv x c = x"

fun fmul :: "pyfloat \<Rightarrow> rat \<Rightarrow> pyfloat" where
  "fmul (Fin r) c = mk_float (r < 0) (\<bar>r\<bar> * c)"
| "fmul x c = x"

text \<open>\<^verbatim>\<open>x + y\<close> on floats.\<close>

fun fadd :: "pyfloat \<Rightarrow> pyfloat \<Rightarrow> pyfloat" where
  "fadd NaN y = NaN"
| "fadd x NaN = NaN"
| "fadd PosInf NegInf = NaN"
| "fadd NegInf PosInf = NaN"
| "fadd PosInf y = PosInf"
| "fadd x PosInf = PosInf"
| "fadd NegInf y = NegInf"
| "fadd x NegInf = NegInf"
| "fadd NegZero y = y"
| "fadd x NegZero = x"
| "fadd (Fin a) (Fin b) = (if a + b = 0 then Fin 0 else mk_float (a + b < 0) \<bar>a + b\<bar>)"

text \<open>\<^verbatim>\<open>x < y\<close> on floats: false whenever one side is NaN.\<close>

fun fval :: "pyfloat \<Rightarrow> rat" where
  "fval (Fin r) = r"
| "fval x = 0"

fun flt :: "pyfloat \<Rightarrow> pyfloat \<Rightarrow> bool" where
  "flt NaN y = False"
| "flt x NaN = False"
| "flt PosInf y = False"
| "flt x PosInf = True"
| "flt x NegInf = False"
| "flt NegInf y = True"
| "flt x y = (fval x < fval y)"

subsection \<open>\<^verbatim>\<open>float(s)\<close>\<close>

text \<open>
  CPython's \<^verbatim>\<open>float(str)\<close> on an ASCII string: underscores are allowed only between two
  digits and are removed; white space is stripped from both ends; what is left must be,
  whole, an optional sign followed by \<^verbatim>\<open>inf\<close>, \<^verbatim>\<open>infinity\<close> or \<^verbatim>\<open>nan\<close> in any case, or by a
  decimal number with at least one digit and an optional exponent. The value is the
  decimal's exact value rounded to binary64. On any other string the runtime decides.
\<close>

definition is_space :: "char \<Rightarrow> bool" where
  "is_space c = (c \<in> set [CHR 0x20, CHR 0x09, CHR 0x0A, CHR 0x0B, CHR 0x0C, CHR 0x0D])"

fun strip_underscores :: "char \<Rightarrow> string \<Rightarrow> string option" where
  "strip_underscores prev [] = (if prev = CHR ''_'' then None else Some [])"
| "strip_underscores prev (c # s) =
     (if c = CHR ''_''
      then (if is_digit prev then strip_underscores c s else None)
      else if prev = CHR ''_'' \<and> \<not> is_digit c then None
      else map_option ((#) c) (strip_underscores c s))"

definition py_strip :: "string \<Rightarrow> string" where
  "py_strip s = rev (dropWhile is_space (rev (dropWhile is_space s)))"

definition to_lower :: "char \<Rightarrow> char" where
  "to_lower c =
     (case map_of (zip ''ABCDEFGHIJKLMNOPQRSTUVWXYZ'' ''abcdefghijklmnopqrstuvwxyz'') c of
        Some l \<Rightarrow> l
      | None \<Rightarrow> c)"

definition dec_value :: "string \<Rightarrow> nat" where
  "dec_value ds = foldl (\<lambda>a c. 10 * a + digit_val c) 0 ds"

text \<open>The optional sign: whether it is \<^verbatim>\<open>-\<close>, and the rest.\<close>

fun take_sign :: "string \<Rightarrow> bool \<times> string" where
  "take_sign [] = (False, [])"
| "take_sign (c # s) =
     (if c = CHR ''-'' then (True, s) else if c = CHR ''+'' then (False, s) else (False, c # s))"

text \<open>The exponent part: \<open>Some e\<close> for an empty rest (\<open>e = 0\<close>) or \<^verbatim>\<open>e\<close>/\<^verbatim>\<open>E\<close>, an optional sign
  and at least one digit, nothing after; \<open>None\<close> otherwise.\<close>

definition parse_exponent :: "string \<Rightarrow> int option" where
  "parse_exponent s =
     (case s of
        [] \<Rightarrow> Some 0
      | c # t \<Rightarrow>
          if c = CHR ''e'' \<or> c = CHR ''E'' then
            (let (neg, ds) = take_sign t
             in if ds \<noteq> [] \<and> list_all is_digit ds
                then Some (if neg then - int (dec_value ds) else int (dec_value ds))
                else None)
          else None)"

text \<open>An unsigned decimal number: its exact value, when the string is one.\<close>

definition parse_decimal :: "string \<Rightarrow> rat option" where
  "parse_decimal s =
     (let ip = takeWhile is_digit s; r1 = dropWhile is_digit s;
          (fp, r2) = (case r1 of
                        c # t \<Rightarrow> if c = CHR ''.'' then (takeWhile is_digit t, dropWhile is_digit t)
                                 else ([], r1)
                      | [] \<Rightarrow> ([], []))
      in if ip = [] \<and> fp = [] then None
         else case parse_exponent r2 of
                None \<Rightarrow> None
              | Some e \<Rightarrow> Some (of_nat (dec_value (ip @ fp)) * pow10 (e - int (length fp))))"

definition parse_float :: "string \<Rightarrow> pyfloat option" where
  "parse_float s =
     (let (neg, t) = take_sign s; l = map to_lower t
      in if l = ''inf'' \<or> l = ''infinity'' then Some (if neg then NegInf else PosInf)
         else if l = ''nan'' then Some NaN
         else map_option (mk_float neg) (parse_decimal t))"

definition float_ascii :: "string \<Rightarrow> pyfloat option" where
  "float_ascii s =
     (case (if CHR ''_'' \<in> set s then strip_underscores (CHR 0x00) s else Some s) of
        None \<Rightarrow> None
      | Some u \<Rightarrow> parse_float (py_strip u))"

definition py_float :: "python \<Rightarrow> string \<Rightarrow> exn + pyfloat" where
  "py_float py s =
     (case (if is_ascii s then float_ascii s else float_non_ascii py s) of
        None \<Rightarrow> Inl (ValueError s)
      | Some x \<Rightarrow> Inr x)"

subsection \<open>Formatting numbers\<close>

text \<open>\<^verbatim>\<open>f"{x:.Nf}"\<close>: the float's exact value rounded (ties to even) to \<open>N\<close> decimals.\<close>

definition zfill :: "nat \<Rightarrow> string \<Rightarrow> string" where
  "zfill w s = replicate (w - length s) (CHR ''0'') @ s"

definition fixed_digits :: "nat \<Rightarrow> nat \<Rightarrow> string" where
  "fixed_digits prec n =
     str_nat (n div 10 ^ prec) @
     (if prec = 0 then [] else CHR ''.'' # zfill prec (str_nat (n mod 10 ^ prec)))"

fun format_f :: "nat \<Rightarrow> pyfloat \<Rightarrow> string" where
  "format_f prec NaN = ''nan''"
| "format_f prec PosInf = ''inf''"
| "format_f prec NegInf = ''-inf''"
| "format_f prec NegZero = CHR ''-'' # fixed_digits prec 0"
| "format_f prec (Fin r) =
     (if r < 0 then ''-'' else []) @
     fixed_digits prec (nat (round_half_even (\<bar>r\<bar> * 10 ^ prec)))"

text \<open>
  \<^verbatim>\<open>repr(x)\<close> of a float, which is what \<^verbatim>\<open>f"{x}"\<close> prints: the shortest decimal digit
  string that reads back as \<^verbatim>\<open>x\<close> (the nearest to \<^verbatim>\<open>x\<close> of that length), laid out in
  positional notation when the decimal point position \<open>decpt\<close> satisfies
  \<open>-4 < decpt \<le> 16\<close> (always with a fractional part, \<^verbatim>\<open>.0\<close> if need be), in exponent
  notation otherwise.
\<close>

text \<open>\<open>floor_log10 q\<close> is the integer \<open>k\<close> with \<open>10^k \<le> q < 10^(k+1)\<close>, for \<open>q > 0\<close>.\<close>

definition floor_log10 :: "rat \<Rightarrow> int" where
  "floor_log10 q =
     (if 1 \<le> q then int (length (str_nat (nat \<lfloor>q\<rfloor>))) - 1
      else - int (length (str_nat (nat (\<lceil>1 / q\<rceil> - 1)))))"

text \<open>The first digit count \<open>nd\<close> of the list at which some \<open>nd\<close>-digit decimal
  \<open>m * 10^(d0 - nd)\<close> rounds to \<open>r\<close>, with that \<open>m\<close> (the nearer of the two
  neighbours of \<open>r\<close> first).\<close>

fun find_shortest :: "rat \<Rightarrow> int \<Rightarrow> nat list \<Rightarrow> (nat \<times> nat) option" where
  "find_shortest r d0 [] = None"
| "find_shortest r d0 (nd # nds) =
     (let scale = pow10 (d0 - int nd);
          lo = nat \<lfloor>r / scale\<rfloor>;
          m = nat (round_half_even (r / scale));
          m' = (if m = lo then lo + 1 else lo)
      in if round_mag (of_nat m * scale) = Some r then Some (nd, m)
         else if round_mag (of_nat m' * scale) = Some r then Some (nd, m')
         else find_shortest r d0 nds)"

text \<open>The digits of \<^verbatim>\<open>repr\<close> (no trailing zero) and the position of the decimal point
  relative to their start, for a finite \<open>r > 0\<close>.\<close>

definition shortest_digits :: "rat \<Rightarrow> string \<times> int" where
  "shortest_digits r =
     (let d0 = floor_log10 r + 1;
          (nd, m) = (case find_shortest r d0 [1..<18] of
                       Some p \<Rightarrow> p
                     | None \<Rightarrow> (17, nat (round_half_even (r / pow10 (d0 - 17)))))
      in (rstrip ''0'' (str_nat m), d0 - int nd + int (length (str_nat m))))"

definition layout_repr :: "string \<Rightarrow> int \<Rightarrow> string" where
  "layout_repr ds decpt =
     (if decpt \<le> - 4 \<or> 16 < decpt then
        take 1 ds @ (if 1 < length ds then CHR ''.'' # drop 1 ds else []) @ ''e'' @
        (if decpt - 1 < 0 then ''-'' else ''+'') @ zfill 2 (str_nat (nat \<bar>decpt - 1\<bar>))
      else if decpt \<le> 0 then ''0.'' @ replicate (nat (- decpt)) (CHR ''0'') @ ds
      else if int (length ds) \<le> decpt then ds @ replicate (nat decpt - length ds) (CHR ''0'') @ ''.0''
      else take (nat decpt) ds @ CHR ''.'' # drop (nat decpt) ds)"

fun repr_float :: "pyfloat \<Rightarrow> string" where
  "repr_float NaN = ''nan''"
| "repr_float PosInf = ''inf''"
| "repr_float NegInf = ''-inf''"
| "repr_float NegZero = ''-0.0''"
| "repr_float (Fin r) =
     (if r = 0 then ''0.0''
      else (if r < 0 then ''-'' else []) @
           (let (ds, decpt) = shortest_digits \<bar>r\<bar> in layout_repr ds decpt))"

subsection \<open>Numbers that are the \<^verbatim>\<open>int\<close> \<^verbatim>\<open>0\<close> or a \<^verbatim>\<open>float\<close>\<close>

fun num_to_float :: "pynum \<Rightarrow> pyfloat" where
  "num_to_float PyZero = Fin 0"
| "num_to_float (PyFloat x) = x"

text \<open>\<^verbatim>\<open>t + x\<close> for a float \<^verbatim>\<open>x\<close>: the \<^verbatim>\<open>int\<close> \<^verbatim>\<open>0\<close> is converted to \<^verbatim>\<open>0.0\<close> first.\<close>

definition num_add :: "pynum \<Rightarrow> pyfloat \<Rightarrow> pynum" where
  "num_add t x = PyFloat (fadd (num_to_float t) x)"

text \<open>\<^verbatim>\<open>a < b\<close>: Python compares an \<^verbatim>\<open>int\<close> with a \<^verbatim>\<open>float\<close> by their exact values, so
  the \<^verbatim>\<open>int\<close> \<^verbatim>\<open>0\<close> compares as \<^verbatim>\<open>0.0\<close> and the \<^verbatim>\<open>int\<close> \<^verbatim>\<open>1000000\<close> as \<^verbatim>\<open>1000000.0\<close>.\<close>

definition num_lt :: "pynum \<Rightarrow> pynum \<Rightarrow> bool" where
  "num_lt a b = flt (num_to_float a) (num_to_float b)"

text \<open>\<^verbatim>\<open>a / c\<close> (true division) by a positive \<^verbatim>\<open>int\<close> constant: always a \<^verbatim>\<open>float\<close>.\<close>

definition num_div :: "pynum \<Rightarrow> rat \<Rightarrow> pyfloat" where
  "num_div a c = fdiv (num_to_float a) c"

text \<open>\<^verbatim>\<open>f"{a}"\<close>.\<close>

fun num_str :: "pynum \<Rightarrow> string" where
  "num_str PyZero = ''0''"
| "num_str (PyFloat x) = repr_float x"

subsection \<open>Raising and propagating\<close>

definition bind_exn :: "exn + 'a \<Rightarrow> ('a \<Rightarrow> exn + 'b) \<Rightarrow> exn + 'b" where
  "bind_exn x f = (case x of Inl e \<Rightarrow> Inl e | Inr v \<Rightarrow> f v)"

text \<open>A loop whose body may raise: the first exception ends it.\<close>

fun map_exn :: "('a \<Rightarrow> exn + 'b) \<Rightarrow> 'a list \<Rightarrow> exn + 'b list" where
  "map_exn f [] = Inr []"
| "map_exn f (x # xs) = bind_exn (f x) (\<lambda>y. bind_exn (map_exn f xs) (\<lambda>ys. Inr (y # ys)))"

text \<open>\<^verbatim>\<open>if namespace:\<close> tests truthiness: \<^verbatim>\<open>None\<close> and the empty string are both false. The
  result is the namespace when the test succeeds.\<close>

definition truthy :: "string option \<Rightarrow> string option" where
  "truthy namespace = (case namespace of None \<Rightarrow> None | Some s \<Rightarrow> if s = [] then None else Some s)"

text \<open>\<^verbatim>\<open>f"{v}"\<close> for an optional string attribute.\<close>

definition str_opt :: "string option \<Rightarrow> string" where
  "str_opt v = (case v of None \<Rightarrow> ''None'' | Some s \<Rightarrow> s)"

subsection \<open>Report glyphs\<close>

definition nl :: string where
  "nl = [CHR 0x0A]"

text \<open>U+2550 and U+2500 (box drawing), U+2713 (check mark), U+2717 (ballot x), U+26A0
  (warning sign), U+2014 (em dash), in UTF-8.\<close>

definition rule_double :: "nat \<Rightarrow> string" where
  "rule_double n = concat (replicate n [CHR 0xE2, CHR 0x95, CHR 0x90])"

definition rule_single :: "nat \<Rightarrow> string" where
  "rule_single n = concat (replicate n [CHR 0xE2, CHR 0x94, CHR 0x80])"

definition tick :: string where
  "tick = [CHR 0xE2, CHR 0x9C, CHR 0x93]"

definition cross :: string where
  "cross = [CHR 0xE2, CHR 0x9C, CHR 0x97]"

definition warn :: string where
  "warn = [CHR 0xE2, CHR 0x9A, CHR 0xA0]"

definition em_dash :: string where
  "em_dash = [CHR 0xE2, CHR 0x80, CHR 0x94]"

section \<open>The cluster, as the Kubernetes client shows it\<close>

text \<open>
  The objects are those of the \<^verbatim>\<open>kubernetes\<close> client, reduced to the attributes the
  source reads. An attribute the source guards against \<^verbatim>\<open>None\<close> (\<^verbatim>\<open>x or []\<close>,
  \<^verbatim>\<open>if x:\<close>) or only prints and compares is optional here; an attribute it dereferences
  or iterates without a guard (\<^verbatim>\<open>metadata.name\<close>, \<^verbatim>\<open>status.conditions\<close>,
  \<^verbatim>\<open>container_status.state\<close>, the keys of a metrics object) is present.
\<close>

record version_info =
  git_version :: string
  platform :: string

record condition =
  cond_type :: string
  cond_status :: string

record node =
  node_name :: string
  node_conditions :: "condition list"
  node_capacity :: "string \<rightharpoonup> string"
  node_allocatable :: "string \<rightharpoonup> string"

text \<open>\<^verbatim>\<open>state.waiting\<close> and \<^verbatim>\<open>state.terminated\<close> are \<^verbatim>\<open>None\<close> or an object with an optional
  \<^verbatim>\<open>reason\<close>.\<close>

record container_status =
  cs_name :: string
  cs_ready :: bool
  cs_restart_count :: int
  cs_waiting :: "string option option"
  cs_terminated :: "string option option"

record container =
  c_name :: string
  c_image :: "string option"

record pod =
  pod_name :: string
  pod_namespace :: string
  pod_phase :: "string option"
  pod_container_statuses :: "container_status list option"
  pod_containers :: "container list option"

record namespace =
  ns_name :: string

record service =
  svc_name :: string
  svc_namespace :: string
  svc_type :: "string option"
  svc_cluster_ip :: "string option"

text \<open>An endpoints object: each subset with its optional list of addresses.\<close>

record endpoints =
  ep_name :: string
  ep_namespace :: string
  ep_subsets :: "string list option list option"

record deployment =
  dep_namespace :: string

record network_policy =
  np_namespace :: string

text \<open>An object of a custom resource: \<^verbatim>\<open>item["metadata"].get("namespace")\<close>.\<close>

record custom_object =
  co_namespace :: "string option"

text \<open>The items of the metrics API (\<^verbatim>\<open>metrics.k8s.io/v1beta1\<close>).\<close>

record node_metric =
  nm_name :: string
  nm_cpu :: string
  nm_memory :: string

record container_usage =
  cu_cpu :: string
  cu_memory :: string

record pod_metric =
  pm_name :: string
  pm_namespace :: string
  pm_containers :: "container_usage list"

text \<open>
  One snapshot of the cluster: what each client call the source makes returns or
  raises. \<open>load_incluster_config\<close> and \<open>load_kube_config\<close> are \<open>None\<close> when they
  succeed. The three metrics fields are the calls of \<^verbatim>\<open>CustomObjectsApi\<close> on group
  \<^verbatim>\<open>metrics.k8s.io\<close>; \<open>list_cluster_custom_object\<close> and
  \<open>list_namespaced_custom_object\<close> are its calls on the Istio groups, already reduced
  by \<^verbatim>\<open>.get("items", [])\<close>, with arguments group, version, (namespace,) plural.
\<close>

record k8s =
  load_incluster_config :: "exn option"
  load_kube_config :: "exn option"
  get_code :: "exn + version_info"
  get_api_resources :: "exn option"
  list_node :: "exn + node list"
  list_namespace :: "exn + namespace list"
  list_namespaced_pod :: "string \<Rightarrow> exn + pod list"
  list_pod_for_all_namespaces :: "exn + pod list"
  list_namespaced_service :: "string \<Rightarrow> exn + service list"
  list_service_for_all_namespaces :: "exn + service list"
  list_namespaced_endpoints :: "string \<Rightarrow> exn + endpoints list"
  list_endpoints_for_all_namespaces :: "exn + endpoints list"
  list_deployment_for_all_namespaces :: "exn + deployment list"
  list_namespaced_network_policy :: "string \<Rightarrow> exn + network_policy list"
  list_network_policy_for_all_namespaces :: "exn + network_policy list"
  list_node_metrics :: "exn + node_metric list"
  list_pod_metrics :: "exn + pod_metric list"
  list_namespaced_pod_metrics :: "string \<Rightarrow> exn + pod_metric list"
  list_cluster_custom_object :: "string \<Rightarrow> string \<Rightarrow> string \<Rightarrow> exn + custom_object list"
  list_namespaced_custom_object :: "string \<Rightarrow> string \<Rightarrow> string \<Rightarrow> string \<Rightarrow> exn + custom_object list"

text \<open>\<^verbatim>\<open>TextContent(type="text", text=...)\<close>.\<close>

record text_content =
  tc_type :: string
  tc_text :: string

definition TextContent :: "string \<Rightarrow> text_content" where
  "TextContent t = \<lparr>tc_type = ''text'', tc_text = t\<rparr>"

section \<open>The quantity normalizer\<close>

text \<open>
  \<^verbatim>\<open>format_resource_usage(cpu, memory)\<close>. Its two halves are named after the local
  variables they assign, \<^verbatim>\<open>cpu_cores\<close> and \<^verbatim>\<open>mem_gb\<close>. The CPU half is evaluated first, so
  its \<^verbatim>\<open>ValueError\<close> wins.
\<close>

definition cpu_cores :: "python \<Rightarrow> string \<Rightarrow> exn + pyfloat" where
  "cpu_cores py cpu =
     (if py_in ''n'' cpu then bind_exn (py_float py (rstrip ''n'' cpu)) (\<lambda>x. Inr (fdiv x (10 ^ 9)))
      else if py_in ''u'' cpu then bind_exn (py_float py (rstrip ''u'' cpu)) (\<lambda>x. Inr (fdiv x (10 ^ 6)))
      else if py_in ''m'' cpu then bind_exn (py_float py (rstrip ''m'' cpu)) (\<lambda>x. Inr (fdiv x 1000))
      else py_float py cpu)"

definition mem_gb :: "python \<Rightarrow> string \<Rightarrow> exn + pyfloat" where
  "mem_gb py memory =
     (if py_in ''Ki'' memory
        then bind_exn (py_float py (rstrip ''Ki'' memory)) (\<lambda>x. Inr (fdiv x (1024 * 1024)))
      else if py_in ''Mi'' memory
        then bind_exn (py_float py (rstrip ''Mi'' memory)) (\<lambda>x. Inr (fdiv x 1024))
      else if py_in ''Gi'' memory then py_float py (rstrip ''Gi'' memory)
      else bind_exn (py_float py memory) (\<lambda>x. Inr (fdiv x (1024 ^ 3))))"

definition format_resource_usage :: "python \<Rightarrow> string \<Rightarrow> string \<Rightarrow> exn + string" where
  "format_resource_usage py cpu memory =
     bind_exn (cpu_cores py cpu) (\<lambda>c.
     bind_exn (mem_gb py memory) (\<lambda>m.
     Inr (format_f 2 c @ '' cores, '' @ format_f 2 m @ '' GB'')))"

section \<open>Resource usage\<close>

text \<open>
  The body of the container loop of \<^verbatim>\<open>get_resource_usage\<close>: \<^verbatim>\<open>total_cpu\<close> in nanocores,
  \<^verbatim>\<open>total_mem\<close> in Ki.
\<close>

definition add_cpu :: "python \<Rightarrow> pynum \<Rightarrow> string \<Rightarrow> exn + pynum" where
  "add_cpu py total_cpu cpu =
     (if py_in ''n'' cpu
        then bind_exn (py_float py (rstrip ''n'' cpu)) (\<lambda>x. Inr (num_add total_cpu x))
      else if py_in ''u'' cpu
        then bind_exn (py_float py (rstrip ''u'' cpu)) (\<lambda>x. Inr (num_add total_cpu (fmul x (10 ^ 3))))
      else if py_in ''m'' cpu
        then bind_exn (py_float py (rstrip ''m'' cpu)) (\<lambda>x. Inr (num_add total_cpu (fmul x (10 ^ 6))))
      else bind_exn (py_float py cpu) (\<lambda>x. Inr (num_add total_cpu (fmul x (10 ^ 9)))))"

definition add_mem :: "python \<Rightarrow> pynum \<Rightarrow> string \<Rightarrow> exn + pynum" where
  "add_mem py total_mem mem =
     (if py_in ''Ki'' mem
        then bind_exn (py_float py (rstrip ''Ki'' mem)) (\<lambda>x. Inr (num_add total_mem x))
      else if py_in ''Mi'' mem
        then bind_exn (py_float py (rstrip ''Mi'' mem)) (\<lambda>x. Inr (num_add total_mem (fmul x 1024)))
      else if py_in ''Gi'' mem
        then bind_exn (py_float py (rstrip ''Gi'' mem))
               (\<lambda>x. Inr (num_add total_mem (fmul (fmul x 1024) 1024)))
      else bind_exn (py_float py mem) (\<lambda>x. Inr (num_add total_mem (fdiv x 1024))))"

fun sum_containers :: "python \<Rightarrow> container_usage list \<Rightarrow> pynum \<Rightarrow> pynum \<Rightarrow> exn + pynum \<times> pynum" where
  "sum_containers py [] total_cpu total_mem = Inr (total_cpu, total_mem)"
| "sum_containers py (c # cs) total_cpu total_mem =
     bind_exn (add_cpu py total_cpu (cu_cpu c)) (\<lambda>total_cpu'.
     bind_exn (add_mem py total_mem (cu_memory c)) (\<lambda>total_mem'.
     sum_containers py cs total_cpu' total_mem'))"

text \<open>The body of the pod loop: the entry appended to \<^verbatim>\<open>pods_with_usage\<close>.\<close>

definition pod_with_usage :: "python \<Rightarrow> pod_metric \<Rightarrow> exn + pod_usage" where
  "pod_with_usage py p =
     bind_exn (sum_containers py (pm_containers p) PyZero PyZero) (\<lambda>(total_cpu, total_mem).
     Inr \<lparr>pu_name = pm_name p, pu_namespace = pm_namespace p,
          pu_cpu = total_cpu, pu_memory = total_mem\<rparr>)"

text \<open>
  \<^verbatim>\<open>pods_with_usage.sort(key=lambda x: x['cpu'], reverse=True)\<close>. When no key is NaN the
  keys are ordered by \<^verbatim>\<open><\<close> and the result is the one list that is descending by key
  with the entries of equal key in their original order; it is built here by insertion.
  When a key is NaN the runtime decides.
\<close>

fun insert_desc :: "pod_usage \<Rightarrow> pod_usage list \<Rightarrow> pod_usage list" where
  "insert_desc x [] = [x]"
| "insert_desc x (y # ys) =
     (if num_lt (pu_cpu y) (pu_cpu x) then x # y # ys else y # insert_desc x ys)"

definition sort_by_cpu :: "python \<Rightarrow> pod_usage list \<Rightarrow> pod_usage list" where
  "sort_by_cpu py xs =
     (if list_ex (\<lambda>x. pu_cpu x = PyFloat NaN) xs then sort_nan_keys py xs
      else foldl (\<lambda>acc x. insert_desc x acc) [] xs)"

text \<open>The two strings the ranking loop builds for a pod, named as in the source.\<close>

definition cpu_str :: "pynum \<Rightarrow> string" where
  "cpu_str cpu =
     (if flt (num_to_float cpu) (Fin 1000000) then num_str cpu @ ''n''
      else format_f 2 (num_div cpu 1000000) @ ''m'')"

definition mem_str :: "pynum \<Rightarrow> string" where
  "mem_str memory = format_f 0 (num_to_float memory) @ ''Ki''"

definition pod_usage_line :: "python \<Rightarrow> pod_usage \<Rightarrow> exn + string" where
  "pod_usage_line py p =
     bind_exn (format_resource_usage py (cpu_str (pu_cpu p)) (mem_str (pu_memory p))) (\<lambda>u.
     Inr (''  '' @ pu_namespace p @ ''/'' @ pu_name p @ '': '' @ u @ nl))"

definition node_usage_line :: "python \<Rightarrow> node_metric \<Rightarrow> exn + string" where
  "node_usage_line py n =
     bind_exn (format_resource_usage py (nm_cpu n) (nm_memory n)) (\<lambda>u.
     Inr (''  '' @ nm_name n @ '': '' @ u @ nl))"

text \<open>The inner \<^verbatim>\<open>_fetch\<close> of \<^verbatim>\<open>get_resource_usage\<close>.\<close>

definition fetch_metrics :: "k8s \<Rightarrow> string option \<Rightarrow> exn + node_metric list \<times> pod_metric list" where
  "fetch_metrics api namespace =
     bind_exn (list_node_metrics api) (\<lambda>node_metrics.
     bind_exn (case truthy namespace of
                 Some ns \<Rightarrow> list_namespaced_pod_metrics api ns
               | None \<Rightarrow> list_pod_metrics api) (\<lambda>pod_metrics.
     Inr (node_metrics, pod_metrics)))"

text \<open>The \<^verbatim>\<open>try\<close> block: fetch, node lines, pod totals, ranking.\<close>

definition usage_report :: "python \<Rightarrow> k8s \<Rightarrow> string option \<Rightarrow> exn + string" where
  "usage_report py api namespace =
     bind_exn (fetch_metrics api namespace) (\<lambda>(node_metrics, pod_metrics).
     bind_exn (map_exn (node_usage_line py) node_metrics) (\<lambda>node_lines.
     bind_exn (map_exn (pod_with_usage py) pod_metrics) (\<lambda>pods_with_usage.
     bind_exn (map_exn (pod_usage_line py) (take 10 (sort_by_cpu py pods_with_usage))) (\<lambda>pod_lines.
     Inr (''Resource Usage:'' @ nl @ rule_double 60 @ nl @ nl @
          ''Nodes:'' @ nl @ rule_single 60 @ nl @
          concat node_lines @
          (case truthy namespace of
             Some ns \<Rightarrow> nl @ nl @ ''Pods (Namespace: '' @ ns @ ''):'' @ nl
           | None \<Rightarrow> nl @ nl @ ''Top Pods by Resource Usage:'' @ nl) @
          rule_single 60 @ nl @
          concat pod_lines)))))"

text \<open>\<^verbatim>\<open>get_resource_usage\<close>: the \<^verbatim>\<open>except ApiException\<close> clause replaces the report; any
  other exception leaves the function.\<close>

definition get_resource_usage :: "python \<Rightarrow> k8s \<Rightarrow> string option \<Rightarrow> exn + text_content list" where
  "get_resource_usage py api namespace =
     (case usage_report py api namespace of
        Inr result \<Rightarrow> Inr [TextContent result]
      | Inl (ApiException status msg) \<Rightarrow>
          if status = 404
          then Inr [TextContent (''Resource Usage:'' @ nl @ rule_double 60 @ nl @ nl @
                                 ''Metrics Server not available'' @ nl)]
          else Inr [TextContent (''Error getting metrics: '' @ msg)]
      | Inl e \<Rightarrow> Inl e)"

section \<open>Cluster information\<close>

text \<open>The inner \<^verbatim>\<open>_fetch\<close> of \<^verbatim>\<open>get_cluster_info\<close>: four client calls in this order; the
  version, the number of nodes and the number of namespaces.\<close>

definition fetch_cluster_info :: "k8s \<Rightarrow> exn + version_info \<times> nat \<times> nat" where
  "fetch_cluster_info api =
     bind_exn (get_code api) (\<lambda>version_info.
     bind_exn (case get_api_resources api of Some e \<Rightarrow> Inl e | None \<Rightarrow> Inr ()) (\<lambda>_.
     bind_exn (list_node api) (\<lambda>nodes.
     bind_exn (list_namespace api) (\<lambda>namespaces.
     Inr (version_info, length nodes, length namespaces)))))"

definition get_cluster_info :: "k8s \<Rightarrow> exn + text_content list" where
  "get_cluster_info api =
     bind_exn (fetch_cluster_info api) (\<lambda>(version_info, node_count, ns_count).
     Inr [TextContent
       (''Cluster Information:'' @ nl @
        rule_single 21 @ nl @
        ''Kubernetes Version: '' @ git_version version_info @ nl @
        ''Platform: '' @ platform version_info @ nl @
        ''API Server: Healthy'' @ nl @
        ''Total Nodes: '' @ str_nat node_count @ nl @
        ''Total Namespaces: '' @ str_nat ns_count @ nl)])"

section \<open>Node health\<close>

text \<open>\<^verbatim>\<open>d.get(k, default)\<close> on a dictionary of strings.\<close>

definition dict_get :: "(string \<rightharpoonup> string) \<Rightarrow> string \<Rightarrow> string \<Rightarrow> string" where
  "dict_get d k dflt = (case d k of None \<Rightarrow> dflt | Some v \<Rightarrow> v)"

definition condition_line :: "condition \<Rightarrow> string" where
  "condition_line c =
     (if cond_type c \<in> set [''Ready'', ''MemoryPressure'', ''DiskPressure'', ''PIDPressure''] then
        ''  '' @
        (if (cond_type c = ''Ready'' \<and> cond_status c = ''True'') \<or>
            (cond_type c \<noteq> ''Ready'' \<and> cond_status c = ''False'')
         then tick else cross) @
        '' '' @ cond_type c @ '': '' @ cond_status c @ nl
      else [])"

definition node_block :: "node \<Rightarrow> string" where
  "node_block n =
     ''Node: '' @ node_name n @ nl @
     rule_single 50 @ nl @
     concat (map condition_line (node_conditions n)) @
     nl @ ''Capacity:'' @ nl @
     ''  CPU: '' @ dict_get (node_capacity n) ''cpu'' ''N/A'' @ nl @
     ''  Memory: '' @ dict_get (node_capacity n) ''memory'' ''N/A'' @ nl @
     ''  Pods: '' @ dict_get (node_capacity n) ''pods'' ''N/A'' @ nl @
     nl @ ''Allocatable:'' @ nl @
     ''  CPU: '' @ dict_get (node_allocatable n) ''cpu'' ''N/A'' @ nl @
     ''  Memory: '' @ dict_get (node_allocatable n) ''memory'' ''N/A'' @ nl @
     ''  Pods: '' @ dict_get (node_allocatable n) ''pods'' ''N/A'' @ nl @
     nl"

text \<open>The inner \<^verbatim>\<open>_fetch\<close> of \<^verbatim>\<open>check_node_health\<close>.\<close>

definition fetch_node_health :: "k8s \<Rightarrow> exn + node list" where
  "fetch_node_health api = list_node api"

definition check_node_health :: "k8s \<Rightarrow> exn + text_content list" where
  "check_node_health api =
     bind_exn (fetch_node_health api) (\<lambda>nodes.
     Inr [TextContent (''Node Health Status:'' @ nl @ rule_double 19 @ nl @ nl @
                       concat (map node_block nodes))])"

section \<open>Pod health\<close>

text \<open>The two files differ in one glyph of this report (the warning sign before
  \<^verbatim>\<open>Problem Pods\<close>) and in the tools they dispatch.\<close>

datatype variant = Http | Local

text \<open>
  A dictionary of counters that keeps insertion order (\<^verbatim>\<open>status_counts\<close>, and the
  \<^verbatim>\<open>defaultdict(int)\<close> of the networking report): \<^verbatim>\<open>d[k] = d.get(k, 0) + 1\<close>.
\<close>

fun dict_incr :: "'k \<Rightarrow> ('k \<times> nat) list \<Rightarrow> ('k \<times> nat) list" where
  "dict_incr k [] = [(k, 1)]"
| "dict_incr k ((k', n) # d) = (if k = k' then (k', n + 1) # d else (k', n) # dict_incr k d)"

definition count_get :: "('k \<times> nat) list \<Rightarrow> 'k \<Rightarrow> nat" where
  "count_get d k = (case map_of d k of None \<Rightarrow> 0 | Some n \<Rightarrow> n)"

definition status_counts :: "pod list \<Rightarrow> (string option \<times> nat) list" where
  "status_counts pods =
     foldl (\<lambda>d p. dict_incr (pod_phase p) d)
       [(Some ''Running'', 0), (Some ''Pending'', 0), (Some ''Failed'', 0),
        (Some ''Succeeded'', 0), (Some ''Unknown'', 0)]
       pods"

text \<open>The issue of one container status: nothing for a ready container; for one that is
  not ready the waiting reason, else the terminated reason, else nothing.\<close>

definition container_issue :: "container_status \<Rightarrow> string list" where
  "container_issue cs =
     (if \<not> cs_ready cs then
        (case cs_waiting cs of
           Some reason \<Rightarrow> [cs_name cs @ '': '' @ str_opt reason]
         | None \<Rightarrow>
            (case cs_terminated cs of
               Some reason \<Rightarrow> [cs_name cs @ '': Terminated - '' @ str_opt reason]
             | None \<Rightarrow> []))
      else [])"

record problem_pod =
  pp_name :: string
  pp_namespace :: string
  pp_phase :: "string option"
  pp_issues :: "string list"

definition is_problem_phase :: "string option \<Rightarrow> bool" where
  "is_problem_phase phase =
     (phase \<in> set [Some ''Failed'', Some ''Unknown''] \<or> phase = Some ''Pending'')"

definition problem_pods :: "pod list \<Rightarrow> problem_pod list" where
  "problem_pods pods =
     concat (map (\<lambda>p.
       if is_problem_phase (pod_phase p) then
         [\<lparr>pp_name = pod_name p, pp_namespace = pod_namespace p, pp_phase = pod_phase p,
           pp_issues = concat (map container_issue
                         (case pod_container_statuses p of None \<Rightarrow> [] | Some cs \<Rightarrow> cs))\<rparr>]
       else []) pods)"

definition summary_line :: "string option \<times> nat \<Rightarrow> string" where
  "summary_line sc =
     (case sc of (status, count) \<Rightarrow>
        if 0 < count then
          ''  '' @ (if status \<in> set [Some ''Running'', Some ''Succeeded''] then tick else cross) @
          '' '' @ str_opt status @ '': '' @ str_nat count @ nl
        else [])"

definition problem_pod_block :: "problem_pod \<Rightarrow> string" where
  "problem_pod_block p =
     nl @ ''  Pod: '' @ pp_namespace p @ ''/'' @ pp_name p @ nl @
     ''  Status: '' @ str_opt (pp_phase p) @ nl @
     (if pp_issues p \<noteq> [] then
        ''  Issues:'' @ nl @ concat (map (\<lambda>issue. ''    - '' @ issue @ nl) (pp_issues p))
      else [])"

definition pod_health_report :: "variant \<Rightarrow> string option \<Rightarrow> pod list \<Rightarrow> string" where
  "pod_health_report v namespace pods =
     (case truthy namespace of
        Some ns \<Rightarrow> ''Pod Health Status (Namespace: '' @ ns @ ''):'' @ nl
      | None \<Rightarrow> ''Pod Health Status (All Namespaces):'' @ nl) @
     rule_double 60 @ nl @ nl @
     ''Summary:'' @ nl @
     concat (map summary_line (status_counts pods)) @
     (if problem_pods pods \<noteq> [] then
        nl @ (if v = Local then warn else []) @
        '' Problem Pods ('' @ str_nat (length (problem_pods pods)) @ ''):'' @ nl @
        rule_single 60 @ nl @
        concat (map problem_pod_block (problem_pods pods))
      else nl @ tick @ '' No problem pods detected'' @ nl)"

text \<open>The inner \<^verbatim>\<open>_fetch\<close> of \<^verbatim>\<open>check_pod_health\<close>.\<close>

definition fetch_pod_health :: "k8s \<Rightarrow> string option \<Rightarrow> exn + pod list" where
  "fetch_pod_health api namespace =
     (case truthy namespace of
        Some ns \<Rightarrow> list_namespaced_pod api ns
      | None \<Rightarrow> list_pod_for_all_namespaces api)"

definition check_pod_health :: "variant \<Rightarrow> k8s \<Rightarrow> string option \<Rightarrow> exn + text_content list" where
  "check_pod_health v api namespace =
     bind_exn (fetch_pod_health api namespace) (\<lambda>pods.
     Inr [TextContent (pod_health_report v namespace pods)])"

section \<open>Cluster diagnostics\<close>

definition node_issues :: "node list \<Rightarrow> string list" where
  "node_issues nodes =
     concat (map (\<lambda>n. concat (map (\<lambda>c.
       if cond_type c = ''Ready'' \<and> cond_status c \<noteq> ''True''
         then [''Node '' @ node_name n @ '' is not Ready'']
       else if cond_type c \<in> set [''MemoryPressure'', ''DiskPressure'', ''PIDPressure'']
               \<and> cond_status c = ''True''
         then [''Node '' @ node_name n @ '' has '' @ cond_type c]
       else []) (node_conditions n))) nodes)"

definition failing_pods :: "pod list \<Rightarrow> string list" where
  "failing_pods pods =
     map (\<lambda>p. pod_namespace p @ ''/'' @ pod_name p)
       (filter (\<lambda>p. pod_phase p = Some ''Failed'') pods)"

definition pending_pods :: "pod list \<Rightarrow> string list" where
  "pending_pods pods =
     map (\<lambda>p. pod_namespace p @ ''/'' @ pod_name p)
       (filter (\<lambda>p. pod_phase p \<noteq> Some ''Failed'' \<and> pod_phase p = Some ''Pending'') pods)"

definition high_restart_pods :: "pod list \<Rightarrow> string list" where
  "high_restart_pods pods =
     concat (map (\<lambda>p.
       map (\<lambda>c. pod_namespace p @ ''/'' @ pod_name p @ '' (container: '' @ cs_name c @
                 '', restarts: '' @ str_int (cs_restart_count c) @ '')'')
         (filter (\<lambda>c. 5 < cs_restart_count c)
            (case pod_container_statuses p of None \<Rightarrow> [] | Some cs \<Rightarrow> cs))) pods)"

text \<open>The \<^verbatim>\<open>Report findings\<close> part, on the four collections.\<close>

definition diagnose_report :: "string list \<Rightarrow> string list \<Rightarrow> string list \<Rightarrow> string list \<Rightarrow> string" where
  "diagnose_report issues failing pending high_restart =
     ''Cluster Diagnostics:'' @ nl @ rule_double 60 @ nl @ nl @
     (if issues = [] \<and> failing = [] \<and> pending = [] \<and> high_restart = [] then
        tick @ '' No critical issues detected'' @ nl @ nl @
        ''Cluster appears healthy!'' @ nl
      else
        warn @ '' Issues Detected:'' @ nl @
        rule_single 60 @ nl @ nl @
        (if issues \<noteq> [] then
           ''Node Issues:'' @ nl @
           concat (map (\<lambda>issue. ''  - '' @ issue @ nl) issues) @
           nl
         else []) @
        (if failing \<noteq> [] then
           ''Failed Pods ('' @ str_nat (length failing) @ ''):'' @ nl @
           concat (map (\<lambda>pod. ''  - '' @ pod @ nl) (take 10 failing)) @
           (if 10 < length failing
            then ''  ... and '' @ str_nat (length failing - 10) @ '' more'' @ nl else []) @
           nl
         else []) @
        (if pending \<noteq> [] then
           ''Pending Pods ('' @ str_nat (length pending) @ ''):'' @ nl @
           concat (map (\<lambda>pod. ''  - '' @ pod @ nl) (take 10 pending)) @
           (if 10 < length pending
            then ''  ... and '' @ str_nat (length pending - 10) @ '' more'' @ nl else []) @
           nl
         else []) @
        (if high_restart \<noteq> [] then
           ''Pods with High Restart Count ('' @ str_nat (length high_restart) @ ''):'' @ nl @
           concat (map (\<lambda>pod. ''  - '' @ pod @ nl) (take 10 high_restart)) @
           (if 10 < length high_restart
            then ''  ... and '' @ str_nat (length high_restart - 10) @ '' more'' @ nl else [])
         else []))"

text \<open>The inner \<^verbatim>\<open>_fetch\<close> of \<^verbatim>\<open>diagnose_cluster\<close>.\<close>

definition fetch_diagnostics :: "k8s \<Rightarrow> exn + node list \<times> pod list" where
  "fetch_diagnostics api =
     bind_exn (list_node api) (\<lambda>nodes.
     bind_exn (list_pod_for_all_namespaces api) (\<lambda>pods.
     Inr (nodes, pods)))"

definition diagnose_cluster :: "k8s \<Rightarrow> exn + text_content list" where
  "diagnose_cluster api =
     bind_exn (fetch_diagnostics api) (\<lambda>(nodes, pods).
     Inr [TextContent (diagnose_report (node_issues nodes) (failing_pods pods)
                         (pending_pods pods) (high_restart_pods pods))])"

section \<open>Namespace summary\<close>

text \<open>\<^verbatim>\<open>defaultdict(list)\<close> filled by \<^verbatim>\<open>d[key(x)].append(x)\<close>; a missing key reads as the
  empty list, as \<^verbatim>\<open>d.get(k, [])\<close> does.\<close>

definition group_by :: "('a \<Rightarrow> string) \<Rightarrow> 'a list \<Rightarrow> string \<Rightarrow> 'a list" where
  "group_by key xs = foldl (\<lambda>d x. d(key x := d (key x) @ [x])) (\<lambda>_. []) xs"

definition namespace_block :: "(string \<Rightarrow> pod list) \<Rightarrow> (string \<Rightarrow> service list) \<Rightarrow>
    (string \<Rightarrow> deployment list) \<Rightarrow> namespace \<Rightarrow> string" where
  "namespace_block pods_by_ns svcs_by_ns deps_by_ns ns =
     (let ns_pods = pods_by_ns (ns_name ns);
          running = length (filter (\<lambda>p. pod_phase p = Some ''Running'') ns_pods);
          failed = length (filter (\<lambda>p. pod_phase p = Some ''Failed'') ns_pods);
          pending = length (filter (\<lambda>p. pod_phase p = Some ''Pending'') ns_pods)
      in ''Namespace: '' @ ns_name ns @ nl @
         rule_single 60 @ nl @
         ''  Pods: '' @ str_nat (length ns_pods) @ '' (Running: '' @ str_nat running @
           '', Pending: '' @ str_nat pending @ '', Failed: '' @ str_nat failed @ '')'' @ nl @
         ''  Deployments: '' @ str_nat (length (deps_by_ns (ns_name ns))) @ nl @
         ''  Services: '' @ str_nat (length (svcs_by_ns (ns_name ns))) @ nl @
         nl)"

text \<open>The inner \<^verbatim>\<open>_fetch\<close> of \<^verbatim>\<open>get_namespace_summary\<close>.\<close>

definition fetch_namespace_summary :: "k8s \<Rightarrow>
    exn + namespace list \<times> pod list \<times> service list \<times> deployment list" where
  "fetch_namespace_summary api =
     bind_exn (list_namespace api) (\<lambda>namespaces.
     bind_exn (list_pod_for_all_namespaces api) (\<lambda>all_pods.
     bind_exn (list_service_for_all_namespaces api) (\<lambda>all_services.
     bind_exn (list_deployment_for_all_namespaces api) (\<lambda>all_deployments.
     Inr (namespaces, all_pods, all_services, all_deployments)))))"

definition get_namespace_summary :: "k8s \<Rightarrow> exn + text_content list" where
  "get_namespace_summary api =
     bind_exn (fetch_namespace_summary api)
       (\<lambda>(namespaces, all_pods, all_services, all_deployments).
     Inr [TextContent
       (''Namespace Summary:'' @ nl @ rule_double 60 @ nl @ nl @
        concat (map (namespace_block (group_by pod_namespace all_pods)
                       (group_by svc_namespace all_services)
                       (group_by dep_namespace all_deployments)) namespaces))])"

section \<open>Networking and service mesh\<close>

text \<open>Integer floor division \<^verbatim>\<open>a // b\<close> on non-negative integers; Python raises on a zero
  divisor.\<close>

definition floordiv :: "nat \<Rightarrow> nat \<Rightarrow> exn + nat" where
  "floordiv a b = (if b = 0 then Inl ZeroDivisionError else Inr (a div b))"

text \<open>\<^verbatim>\<open>sep.join(parts)\<close>.\<close>

fun py_join :: "string \<Rightarrow> string list \<Rightarrow> string" where
  "py_join sep [] = []"
| "py_join sep [x] = x"
| "py_join sep (x # y # ys) = x @ sep @ py_join sep (y # ys)"

text \<open>A client call inside \<^verbatim>\<open>try: ... except ApiException:\<close> with a fallback value.\<close>

definition except_api :: "'a \<Rightarrow> exn + 'a \<Rightarrow> exn + 'a" where
  "except_api fallback r =
     (case r of
        Inr x \<Rightarrow> Inr x
      | Inl (ApiException status msg) \<Rightarrow> Inr fallback
      | Inl e \<Rightarrow> Inl e)"

definition istio_crds :: "(string \<times> string \<times> string) list" where
  "istio_crds =
     [(''networking.istio.io'', ''v1'', ''virtualservices''),
      (''networking.istio.io'', ''v1'', ''destinationrules''),
      (''networking.istio.io'', ''v1'', ''gateways''),
      (''networking.istio.io'', ''v1'', ''serviceentries''),
      (''security.istio.io'', ''v1'', ''peerauthentications'')]"

text \<open>What \<^verbatim>\<open>_fetch\<close> of \<^verbatim>\<open>check_networking\<close> returns.\<close>

record net_data =
  istio_pods :: "pod list"
  all_pods :: "pod list"
  services :: "service list"
  endpoints_list :: "endpoints list"
  net_policies :: "network_policy list"
  istio_resources :: "(string \<times> custom_object list option) list"

definition fetch_crd :: "k8s \<Rightarrow> string option \<Rightarrow> string \<times> string \<times> string \<Rightarrow>
    exn + string \<times> custom_object list option" where
  "fetch_crd api namespace crd =
     (case crd of (grp, version, plural) \<Rightarrow>
        bind_exn (except_api None
                    (bind_exn (case truthy namespace of
                                 Some ns \<Rightarrow> list_namespaced_custom_object api grp version ns plural
                               | None \<Rightarrow> list_cluster_custom_object api grp version plural)
                       (\<lambda>items. Inr (Some items))))
          (\<lambda>items. Inr (plural, items)))"

definition fetch_networking :: "k8s \<Rightarrow> string option \<Rightarrow> exn + net_data" where
  "fetch_networking api namespace =
     bind_exn (except_api [] (list_namespaced_pod api ''istio-system'')) (\<lambda>ip.
     bind_exn (case truthy namespace of
                 Some ns \<Rightarrow> list_namespaced_pod api ns
               | None \<Rightarrow> list_pod_for_all_namespaces api) (\<lambda>ap.
     bind_exn (case truthy namespace of
                 Some ns \<Rightarrow> list_namespaced_service api ns
               | None \<Rightarrow> list_service_for_all_namespaces api) (\<lambda>sv.
     bind_exn (case truthy namespace of
                 Some ns \<Rightarrow> list_namespaced_endpoints api ns
               | None \<Rightarrow> list_endpoints_for_all_namespaces api) (\<lambda>ep.
     bind_exn (case truthy namespace of
                 Some ns \<Rightarrow> list_namespaced_network_policy api ns
               | None \<Rightarrow> list_network_policy_for_all_namespaces api) (\<lambda>np.
     bind_exn (map_exn (fetch_crd api namespace) istio_crds) (\<lambda>ir.
     Inr \<lparr>istio_pods = ip, all_pods = ap, services = sv, endpoints_list = ep,
          net_policies = np, istio_resources = ir\<rparr>))))))"

subsection \<open>1. Istio control plane\<close>

definition control_plane_section :: "pod list \<Rightarrow> string" where
  "control_plane_section ip =
     ''Istio Control Plane:'' @ nl @ rule_single 60 @ nl @
     (if ip = [] then
        ''  '' @ warn @ '' No pods found in istio-system (Istio may not be installed)'' @ nl
      else
        concat (map (\<lambda>p. ''  '' @ (if pod_phase p = Some ''Running'' then tick else cross) @
                           '' '' @ pod_name p @ '': '' @ str_opt (pod_phase p) @ nl) ip)) @
     nl"

subsection \<open>2. Sidecar injection coverage\<close>

text \<open>The three counters of the pod loop: \<^verbatim>\<open>ns_total\<close>, \<^verbatim>\<open>ns_injected\<close>,
  \<^verbatim>\<open>proxy_versions\<close>. The inner loop stops at the first container named
  \<^verbatim>\<open>istio-proxy\<close>.\<close>

record sidecar_counts =
  ns_total :: "(string \<times> nat) list"
  ns_injected :: "(string \<times> nat) list"
  proxy_versions :: "(string \<times> nat) list"

definition sidecar_step :: "sidecar_counts \<Rightarrow> pod \<Rightarrow> sidecar_counts" where
  "sidecar_step s p =
     (let s1 = s\<lparr>ns_total := dict_incr (pod_namespace p) (ns_total s)\<rparr>
      in case find (\<lambda>c. c_name c = ''istio-proxy'')
                (case pod_containers p of None \<Rightarrow> [] | Some cs \<Rightarrow> cs) of
           None \<Rightarrow> s1
         | Some c \<Rightarrow>
             (let s2 = s1\<lparr>ns_injected := dict_incr (pod_namespace p) (ns_injected s1)\<rparr>
              in case c_image c of
                   None \<Rightarrow> s2
                 | Some img \<Rightarrow>
                     if img \<noteq> [] \<and> py_in '':'' img
                     then s2\<lparr>proxy_versions :=
                               dict_incr (after_last (CHR '':'') img) (proxy_versions s2)\<rparr>
                     else s2))"

definition sidecar_loop :: "pod list \<Rightarrow> sidecar_counts" where
  "sidecar_loop pods =
     foldl sidecar_step \<lparr>ns_total = [], ns_injected = [], proxy_versions = []\<rparr> pods"

definition coverage_line :: "sidecar_counts \<Rightarrow> string \<Rightarrow> exn + string" where
  "coverage_line s ns =
     (let injected = count_get (ns_injected s) ns;
          total = count_get (ns_total s) ns
      in bind_exn (if total \<noteq> 0 then floordiv (injected * 100) total else Inr 0) (\<lambda>pct.
         Inr (''  '' @ (if injected = total then tick else if 0 < injected then ''~'' else cross) @
              '' '' @ ns @ '': '' @ str_nat injected @ ''/'' @ str_nat total @
              '' ('' @ str_nat pct @ ''%)'' @ nl)))"

definition sidecar_section :: "sidecar_counts \<Rightarrow> exn + string" where
  "sidecar_section s =
     (let total_pods = sum_list (map snd (ns_total s));
          total_injected = sum_list (map snd (ns_injected s))
      in bind_exn
           (if total_injected = 0 then
              Inr (''  '' @ warn @ '' No istio-proxy sidecars detected in any pod'' @ nl)
            else
              bind_exn (floordiv (total_injected * 100) total_pods) (\<lambda>pct.
              bind_exn (map_exn (coverage_line s) (sort (map fst (ns_total s)))) (\<lambda>ls.
              Inr (''  Total: '' @ str_nat total_injected @ ''/'' @ str_nat total_pods @
                   '' pods have sidecar '' @ ''('' @ str_nat pct @ ''%)'' @ nl @ nl @
                   concat ls))))
           (\<lambda>body.
            Inr (''Sidecar Injection Coverage:'' @ nl @ rule_single 60 @ nl @ body @ nl)))"

subsection \<open>3. Proxy version consistency\<close>

definition proxy_version_section :: "(string \<times> nat) list \<Rightarrow> string" where
  "proxy_version_section pv =
     ''Proxy Version Consistency:'' @ nl @ rule_single 60 @ nl @
     (case pv of
        [] \<Rightarrow> ''  N/A (no sidecars detected)'' @ nl
      | [(ver, count)] \<Rightarrow>
          ''  '' @ tick @ '' All '' @ str_nat count @ '' proxies running version: '' @ ver @ nl
      | _ \<Rightarrow>
          ''  '' @ warn @ '' Mixed versions detected ('' @ str_nat (length pv) @ '' versions):'' @ nl @
          concat (map (\<lambda>(ver, count). ''    - '' @ ver @ '': '' @ str_nat count @ '' proxies'' @ nl)
                    (sort_key (\<lambda>x. - int (snd x)) pv))) @
     nl"

subsection \<open>4. Services with missing endpoints\<close>

definition ep_map :: "endpoints list \<Rightarrow> string \<rightharpoonup> nat" where
  "ep_map eps =
     foldl (\<lambda>m ep.
              m(ep_namespace ep @ ''/'' @ ep_name ep \<mapsto>
                length (concat (map (\<lambda>addresses. case addresses of None \<Rightarrow> [] | Some a \<Rightarrow> a)
                                  (case ep_subsets ep of None \<Rightarrow> [] | Some ss \<Rightarrow> ss)))))
       Map.empty eps"

definition no_endpoint_svcs :: "service list \<Rightarrow> endpoints list \<Rightarrow> string list" where
  "no_endpoint_svcs svcs eps =
     map (\<lambda>svc. svc_namespace svc @ ''/'' @ svc_name svc)
       (filter (\<lambda>svc. svc_type svc \<noteq> Some ''ExternalName'' \<and>
                       svc_cluster_ip svc \<noteq> Some ''None'' \<and>
                       (case ep_map eps (svc_namespace svc @ ''/'' @ svc_name svc) of
                          None \<Rightarrow> True
                        | Some n \<Rightarrow> n = 0)) svcs)"

definition missing_endpoints_section :: "string list \<Rightarrow> string" where
  "missing_endpoints_section ne =
     ''Services with Missing Endpoints:'' @ nl @ rule_single 60 @ nl @
     (if ne \<noteq> [] then
        ''  '' @ warn @ '' '' @ str_nat (length ne) @ '' service(s) with no ready endpoints:'' @ nl @
        concat (map (\<lambda>svc_name. ''    - '' @ svc_name @ nl) (take 20 ne)) @
        (if 20 < length ne
         then ''    ... and '' @ str_nat (length ne - 20) @ '' more'' @ nl else [])
      else ''  '' @ tick @ '' All services have ready endpoints'' @ nl) @
     nl"

subsection \<open>5. Istio configuration\<close>

definition crd_labels :: "(string \<times> string) list" where
  "crd_labels =
     [(''virtualservices'', ''VirtualServices''),
      (''destinationrules'', ''DestinationRules''),
      (''gateways'', ''Gateways''),
      (''serviceentries'', ''ServiceEntries''),
      (''peerauthentications'', ''PeerAuthentications'')]"

definition crd_line :: "(string \<times> custom_object list option) list \<Rightarrow> string \<times> string \<Rightarrow> string" where
  "crd_line ir pl =
     (case pl of (plural, label) \<Rightarrow>
        (case map_of ir plural of
           Some (Some items) \<Rightarrow>
             if items \<noteq> [] then
               ''  '' @ label @ '' ('' @ str_nat (length items) @ ''): '' @
               py_join '', ''
                 (map (\<lambda>(ns, c). ns @ '': '' @ str_nat c)
                    (sort_key fst
                       (foldl (\<lambda>d item. dict_incr (case co_namespace item of
                                                      None \<Rightarrow> ''<cluster>'' | Some ns \<Rightarrow> ns) d)
                          [] items))) @ nl
             else ''  '' @ label @ '': 0'' @ nl
         | _ \<Rightarrow> ''  - '' @ label @ '': CRD not installed'' @ nl))"

definition istio_config_section :: "(string \<times> custom_object list option) list \<Rightarrow> string" where
  "istio_config_section ir =
     ''Istio Configuration:'' @ nl @ rule_single 60 @ nl @
     concat (map (crd_line ir) crd_labels) @
     (if \<not> list_ex (\<lambda>pl. case map_of ir (fst pl) of Some (Some items) \<Rightarrow> True | _ \<Rightarrow> False)
             crd_labels
      then ''  '' @ warn @ '' No Istio CRDs found '' @ em_dash @ '' Istio is not installed'' @ nl
      else []) @
     nl"

subsection \<open>6. Network policies\<close>

definition network_policy_section :: "network_policy list \<Rightarrow> string" where
  "network_policy_section nps =
     ''NetworkPolicies:'' @ nl @ rule_single 60 @ nl @
     (if nps = [] then
        ''No NetworkPolicies defined (all pod-to-pod traffic is allowed)'' @ nl
      else
        ''  Total: '' @ str_nat (length nps) @ nl @
        concat (map (\<lambda>(ns_name, count). ''    '' @ ns_name @ '': '' @ str_nat count @ nl)
                  (sort_key fst (foldl (\<lambda>d np. dict_incr (np_namespace np) d) [] nps)))) @
     nl"

definition networking_report :: "string option \<Rightarrow> net_data \<Rightarrow> exn + string" where
  "networking_report namespace d =
     bind_exn (sidecar_section (sidecar_loop (all_pods d))) (\<lambda>sidecar.
     Inr (''Networking & Istio Diagnostics ('' @
          (case truthy namespace of
             Some ns \<Rightarrow> ''Namespace: '' @ ns
           | None \<Rightarrow> ''All Namespaces'') @ ''):'' @ nl @
          rule_double 60 @ nl @ nl @
          control_plane_section (istio_pods d) @
          sidecar @
          proxy_version_section (proxy_versions (sidecar_loop (all_pods d))) @
          missing_endpoints_section (no_endpoint_svcs (services d) (endpoints_list d)) @
          istio_config_section (istio_resources d) @
          network_policy_section (net_policies d)))"

definition check_networking :: "k8s \<Rightarrow> string option \<Rightarrow> exn + text_content list" where
  "check_networking api namespace =
     bind_exn (fetch_networking api namespace) (\<lambda>d.
     bind_exn (networking_report namespace d) (\<lambda>result.
     Inr [TextContent result]))"

section \<open>The tool registry and the dispatcher\<close>

text \<open>A tool descriptor: its name, its description and the names of the properties of
  its input schema.\<close>

record tool =
  tool_name :: string
  tool_description :: string
  tool_properties :: "string list"

definition list_tools :: "variant \<Rightarrow> tool list" where
  "list_tools v =
     [\<lparr>tool_name = ''get_cluster_info'',
       tool_description = ''Get basic Kubernetes cluster information including version and API server status'',
       tool_properties = []\<rparr>,
      \<lparr>tool_name = ''check_node_health'',
       tool_description = ''Check the health status and resource usage of all nodes in the cluster'',
       tool_properties = []\<rparr>,
      \<lparr>tool_name = ''check_pod_health'',
       tool_description = ''Check the health status of pods across all namespaces or a specific namespace'',
       tool_properties = [''namespace'']\<rparr>,
      \<lparr>tool_name = ''get_resource_usage'',
       tool_description = ''Get resource usage statistics (CPU and memory) for nodes and pods'',
       tool_properties = [''namespace'']\<rparr>,
      \<lparr>tool_name = ''diagnose_cluster'',
       tool_description = ''Run comprehensive cluster diagnostics including failing pods, resource pressure, and common issues'',
       tool_properties = []\<rparr>,
      \<lparr>tool_name = ''get_namespace_summary'',
       tool_description = ''Get a summary of resources in each namespace'',
       tool_properties = []\<rparr>] @
     (if v = Http then
        [\<lparr>tool_name = ''check_networking'',
          tool_description = ''Check cluster networking and Istio service mesh health: control plane status, sidecar injection coverage, proxy version consistency, Istio config (VirtualServices, DestinationRules, Gateways), services with missing endpoints, and NetworkPolicies'',
          tool_properties = [''namespace'']\<rparr>]
      else [])"

text \<open>
  \<^verbatim>\<open>init_kubernetes\<close>, on the global flag \<^verbatim>\<open>_k8s_initialized\<close>: the new value of the flag, or
  the exception. Only a \<^verbatim>\<open>ConfigException\<close> of the in-cluster load falls back to the
  kube-config file.
\<close>

definition init_kubernetes :: "k8s \<Rightarrow> bool \<Rightarrow> exn + bool" where
  "init_kubernetes api k8s_initialized =
     (if k8s_initialized then Inr k8s_initialized
      else case load_incluster_config api of
             None \<Rightarrow> Inr True
           | Some (ConfigException msg) \<Rightarrow>
               (case load_kube_config api of None \<Rightarrow> Inr True | Some e \<Rightarrow> Inl e)
           | Some e \<Rightarrow> Inl e)"

text \<open>\<^verbatim>\<open>arguments.get("namespace", None)\<close>: the arguments are a dictionary whose values are
  strings or \<^verbatim>\<open>None\<close>.\<close>

definition arg_get :: "(string \<rightharpoonup> string option) \<Rightarrow> string \<Rightarrow> string option" where
  "arg_get arguments k = (case arguments k of None \<Rightarrow> None | Some v \<Rightarrow> v)"

text \<open>The \<^verbatim>\<open>if\<close>/\<^verbatim>\<open>elif\<close> chain of \<^verbatim>\<open>call_tool\<close>; the local file has no
  \<^verbatim>\<open>check_networking\<close> branch.\<close>

definition dispatch :: "python \<Rightarrow> variant \<Rightarrow> k8s \<Rightarrow> string \<Rightarrow> (string \<rightharpoonup> string option) \<Rightarrow>
    exn + text_content list" where
  "dispatch py v api name arguments =
     (if name = ''get_cluster_info'' then get_cluster_info api
      else if name = ''check_node_health'' then check_node_health api
      else if name = ''check_pod_health''
        then check_pod_health v api (arg_get arguments ''namespace'')
      else if name = ''get_resource_usage''
        then get_resource_usage py api (arg_get arguments ''namespace'')
      else if name = ''diagnose_cluster'' then diagnose_cluster api
      else if name = ''get_namespace_summary'' then get_namespace_summary api
      else if v = Http \<and> name = ''check_networking''
        then check_networking api (arg_get arguments ''namespace'')
      else Inr [TextContent (''Unknown tool: '' @ name)])"

text \<open>The \<^verbatim>\<open>try\<close> body of \<^verbatim>\<open>call_tool\<close>: the result or the exception, and the flag after
  it.\<close>

definition call_tool_body :: "python \<Rightarrow> variant \<Rightarrow> k8s \<Rightarrow> bool \<Rightarrow> string \<Rightarrow>
    (string \<rightharpoonup> string option) \<Rightarrow> (exn + text_content list) \<times> bool" where
  "call_tool_body py v api k8s_initialized name arguments =
     (case init_kubernetes api k8s_initialized of
        Inl e \<Rightarrow> (Inl e, k8s_initialized)
      | Inr flag \<Rightarrow> (dispatch py v api name arguments, flag))"

text \<open>\<^verbatim>\<open>call_tool\<close>: \<^verbatim>\<open>except Exception as e\<close> turns the exception into a text.\<close>

definition call_tool :: "python \<Rightarrow> variant \<Rightarrow> k8s \<Rightarrow> bool \<Rightarrow> string \<Rightarrow>
    (string \<rightharpoonup> string option) \<Rightarrow> text_content list \<times> bool" where
  "call_tool py v api k8s_initialized name arguments =
     (case call_tool_body py v api k8s_initialized name arguments of
        (Inr result, flag) \<Rightarrow> (result, flag)
      | (Inl e, flag) \<Rightarrow> ([TextContent (''Error: '' @ exn_str py e)], flag))"

section \<open>Fixtures\<close>

text \<open>A runtime for the examples. The examples hold ASCII strings and no NaN, so its
  first three fields are never consulted; the message is the one of CPython 3.11.\<close>

definition example_python :: python where
  "example_python =
     \<lparr>float_non_ascii = (\<lambda>s. None),
      repr_non_ascii = (\<lambda>s. [CHR 0x27] @ s @ [CHR 0x27]),
      sort_nan_keys = (\<lambda>xs. xs),
      zero_division_message = ''integer division or modulo by zero''\<rparr>"

text \<open>A cluster with nothing in it, on which every client call succeeds: the starting
  point of the concrete clusters below.\<close>

definition empty_cluster :: k8s where
  "empty_cluster =
     \<lparr>load_incluster_config = None,
      load_kube_config = None,
      get_code = Inr \<lparr>git_version = ''v1.29.0'', platform = ''linux/amd64''\<rparr>,
      get_api_resources = None,
      list_node = Inr [],
      list_namespace = Inr [],
      list_namespaced_pod = (\<lambda>ns. Inr []),
      list_pod_for_all_namespaces = Inr [],
      list_namespaced_service = (\<lambda>ns. Inr []),
      list_service_for_all_namespaces = Inr [],
      list_namespaced_endpoints = (\<lambda>ns. Inr []),
      list_endpoints_for_all_namespaces = Inr [],
      list_deployment_for_all_namespaces = Inr [],
      list_namespaced_network_policy = (\<lambda>ns. Inr []),
      list_network_policy_for_all_namespaces = Inr [],
      list_node_metrics = Inr [],
      list_pod_metrics = Inr [],
      list_namespaced_pod_metrics = (\<lambda>ns. Inr []),
      list_cluster_custom_object = (\<lambda>grp version plural. Inr []),
      list_namespaced_custom_object = (\<lambda>grp version ns plural. Inr [])\<rparr>"

definition unready_node :: "string \<Rightarrow> node" where
  "unready_node n =
     \<lparr>node_name = n, node_conditions = [\<lparr>cond_type = ''Ready'', cond_status = ''False''\<rparr>],
      node_capacity = Map.empty, node_allocatable = Map.empty\<rparr>"

definition failed_pod :: "string \<Rightarrow> pod" where
  "failed_pod n =
     \<lparr>pod_name = n, pod_namespace = ''default'', pod_phase = Some ''Failed'',
      pod_container_statuses = None, pod_containers = None\<rparr>"

text \<open>A running pod of a namespace, with its containers given by name.\<close>

definition mesh_pod :: "string \<Rightarrow> string \<Rightarrow> string list \<Rightarrow> pod" where
  "mesh_pod ns n cs =
     \<lparr>pod_name = n, pod_namespace = ns, pod_phase = Some ''Running'',
      pod_container_statuses = None,
      pod_containers = Some (map (\<lambda>c. \<lparr>c_name = c, c_image = None\<rparr>) cs)\<rparr>"

text \<open>The metrics of a pod with one container.\<close>

definition one_container :: "string \<Rightarrow> string \<Rightarrow> string \<Rightarrow> pod_metric" where
  "one_container n cpu memory =
     \<lparr>pm_name = n, pm_namespace = ''default'',
      pm_containers = [\<lparr>cu_cpu = cpu, cu_memory = memory\<rparr>]\<rparr>"

section \<open>The words of the specification\<close>

text \<open>
  The specification describes a capped listing: the first \<open>cap\<close> entries, then a line
  \<^verbatim>\<open>... and N more\<close> exactly when the collection holds more than \<open>cap\<close>. These two
  definitions follow its words; the reports of the source are compared with them.
\<close>

definition listing :: "string list \<Rightarrow> string" where
  "listing xs = concat (map (\<lambda>x. ''  - '' @ x @ nl) xs)"

definition capped_listing :: "nat \<Rightarrow> string list \<Rightarrow> string" where
  "capped_listing cap xs =
     listing (take cap xs) @
     (if cap < length xs then ''  ... and '' @ str_nat (length xs - cap) @ '' more'' @ nl else [])"

text \<open>
  The specification's sidecar coverage: a pod is injected when one of its spec
  containers is named \<^verbatim>\<open>istio-proxy\<close>; a percentage is the floor of
  \<open>part * 100 / whole\<close>; a coverage line shows \<^verbatim>\<open>part/whole (pct%)\<close>. These follow the
  specification's words, and the loop of the source is compared with them.
\<close>

definition has_sidecar :: "pod \<Rightarrow> bool" where
  "has_sidecar p =
     list_ex (\<lambda>c. c_name c = ''istio-proxy'')
       (case pod_containers p of None \<Rightarrow> [] | Some cs \<Rightarrow> cs)"

definition floor_percent :: "nat \<Rightarrow> nat \<Rightarrow> nat" where
  "floor_percent part whole = (if whole = 0 then 0 else part * 100 div whole)"

definition coverage_text :: "string \<Rightarrow> nat \<Rightarrow> nat \<Rightarrow> string" where
  "coverage_text ns part whole =
     ''  '' @ (if part = whole then tick else if 0 < part then ''~'' else cross) @
     '' '' @ ns @ '': '' @ str_nat part @ ''/'' @ str_nat whole @
     '' ('' @ str_nat (floor_percent part whole) @ ''%)'' @ nl"

section \<open>Evaluation rules\<close>

lemmas str_eval = is_digit_def digit_val_def digit_char_def str_nat.simps str_int_def rstrip_def
  after_last_def zfill_def

lemmas float_eval = pow2_def pow10_def bit_length.simps floor_log2_def round_half_even_def
  round_mag_def mk_float_def Let_def

lemmas parse_eval = is_space_def py_strip_def to_lower_def dec_value_def parse_exponent_def
  parse_decimal_def parse_float_def float_ascii_def is_ascii_def py_float_def

lemmas quantity_eval = bind_exn_def cpu_cores_def mem_gb_def add_cpu_def add_mem_def num_add_def

lemma bind_exn_simps [simp]:
  "bind_exn (Inl e) f = Inl e" "bind_exn (Inr x) f = f x"
  by (simp_all add: bind_exn_def)

lemma truthy_simps [simp]:
  "truthy None = None" "truthy (Some []) = None" "truthy (Some (c # s)) = Some (c # s)"
  by (simp_all add: truthy_def)

section \<open>Namespace scoping\<close>

lemma fetch_crd_empty: "fetch_crd api (Some []) = fetch_crd api None"
  by (rule ext) (simp add: fetch_crd_def)

lemma fetch_crd_cluster:
  "fetch_crd api None =
   (\<lambda>(grp, version, plural).
      bind_exn (except_api None
                  (bind_exn (list_cluster_custom_object api grp version plural)
                     (\<lambda>items. Inr (Some items))))
        (\<lambda>items. Inr (plural, items)))"
  by (rule ext) (simp add: fetch_crd_def split: prod.splits)

lemma fetch_crd_namespaced:
  "ns \<noteq> [] \<Longrightarrow>
   fetch_crd api (Some ns) =
   (\<lambda>(grp, version, plural).
      bind_exn (except_api None
                  (bind_exn (list_namespaced_custom_object api grp version ns plural)
                     (\<lambda>items. Inr (Some items))))
        (\<lambda>items. Inr (plural, items)))"
  by (rule ext) (simp add: fetch_crd_def truthy_def split: prod.splits)

lemma fetch_networking_empty: "fetch_networking api (Some []) = fetch_networking api None"
  by (simp add: fetch_networking_def fetch_crd_empty)

lemma check_pod_health_empty: "check_pod_health v api (Some []) = check_pod_health v api None"
  by (simp add: check_pod_health_def fetch_pod_health_def pod_health_report_def)

lemma get_resource_usage_empty:
  "get_resource_usage py api (Some []) = get_resource_usage py api None"
  by (simp add: get_resource_usage_def usage_report_def fetch_metrics_def)

lemma check_networking_empty: "check_networking api (Some []) = check_networking api None"
  by (simp add: check_networking_def fetch_networking_empty networking_report_def)

lemma dispatch_empty:
  "dispatch py v api name (arguments(''namespace'' \<mapsto> Some [])) =
   dispatch py v api name (arguments(''namespace'' := None))"
  by (simp add: dispatch_def arg_get_def check_pod_health_empty get_resource_usage_empty
        check_networking_empty)

lemma call_tool_empty:
  "call_tool py v api flag name (arguments(''namespace'' \<mapsto> Some [])) =
   call_tool py v api flag name (arguments(''namespace'' := None))"
  unfolding call_tool_def call_tool_body_def dispatch_empty by (rule refl)

lemma fetch_networking_cluster:
  "fetch_networking api None =
     bind_exn (except_api [] (list_namespaced_pod api ''istio-system'')) (\<lambda>ip.
     bind_exn (list_pod_for_all_namespaces api) (\<lambda>ap.
     bind_exn (list_service_for_all_namespaces api) (\<lambda>sv.
     bind_exn (list_endpoints_for_all_namespaces api) (\<lambda>ep.
     bind_exn (list_network_policy_for_all_namespaces api) (\<lambda>np.
     bind_exn (map_exn (\<lambda>(grp, version, plural).
                          bind_exn (except_api None
                                      (bind_exn (list_cluster_custom_object api grp version plural)
                                         (\<lambda>items. Inr (Some items))))
                            (\<lambda>items. Inr (plural, items))) istio_crds) (\<lambda>ir.
     Inr \<lparr>istio_pods = ip, all_pods = ap, services = sv, endpoints_list = ep,
          net_policies = np, istio_resources = ir\<rparr>))))))"
  by (simp add: fetch_networking_def fetch_crd_cluster)

lemma fetch_networking_namespaced:
  "ns \<noteq> [] \<Longrightarrow>
   fetch_networking api (Some ns) =
     bind_exn (except_api [] (list_namespaced_pod api ''istio-system'')) (\<lambda>ip.
     bind_exn (list_namespaced_pod api ns) (\<lambda>ap.
     bind_exn (list_namespaced_service api ns) (\<lambda>sv.
     bind_exn (list_namespaced_endpoints api ns) (\<lambda>ep.
     bind_exn (list_namespaced_network_policy api ns) (\<lambda>np.
     bind_exn (map_exn (\<lambda>(grp, version, plural).
                          bind_exn (except_api None
                                      (bind_exn (list_namespaced_custom_object api grp version ns plural)
                                         (\<lambda>items. Inr (Some items))))
                            (\<lambda>items. Inr (plural, items))) istio_crds) (\<lambda>ir.
     Inr \<lparr>istio_pods = ip, all_pods = ap, services = sv, endpoints_list = ep,
          net_policies = np, istio_resources = ir\<rparr>))))))"
  by (simp add: fetch_networking_def fetch_crd_namespaced truthy_def)

text \<open>
  Claim C10. For each of the three tools that take the optional \<^verbatim>\<open>namespace\<close> argument,
  the empty string behaves as the omitted argument does, and what it does is the
  cluster-wide listing: the fetch of \<^verbatim>\<open>check_pod_health\<close> is \<^verbatim>\<open>list_pod_for_all_namespaces\<close>,
  the fetch of \<^verbatim>\<open>get_resource_usage\<close> lists the pod metrics of the cluster, the fetch of
  \<^verbatim>\<open>check_networking\<close> makes the \<^verbatim>\<open>..._for_all_namespaces\<close> calls and lists the cluster's
  custom objects; the reports are headed as for all namespaces, and the whole tool
  call returns what it returns without the argument. A namespace that is not empty
  makes the namespaced calls instead.
\<close>

theorem empty_namespace_is_all_namespaces:
  "(\<forall>namespace \<in> {None, Some []}.
      fetch_pod_health api namespace = list_pod_for_all_namespaces api \<and>
      check_pod_health v api namespace =
        bind_exn (list_pod_for_all_namespaces api)
          (\<lambda>pods. Inr [TextContent (pod_health_report v None pods)]) \<and>
      fetch_metrics api namespace =
        bind_exn (list_node_metrics api) (\<lambda>node_metrics.
        bind_exn (list_pod_metrics api) (\<lambda>pod_metrics.
        Inr (node_metrics, pod_metrics))) \<and>
      get_resource_usage py api namespace = get_resource_usage py api None \<and>
      fetch_networking api namespace =
        bind_exn (except_api [] (list_namespaced_pod api ''istio-system'')) (\<lambda>ip.
        bind_exn (list_pod_for_all_namespaces api) (\<lambda>ap.
        bind_exn (list_service_for_all_namespaces api) (\<lambda>sv.
        bind_exn (list_endpoints_for_all_namespaces api) (\<lambda>ep.
        bind_exn (list_network_policy_for_all_namespaces api) (\<lambda>np.
        bind_exn (map_exn (\<lambda>(grp, version, plural).
                             bind_exn (except_api None
                                         (bind_exn (list_cluster_custom_object api grp version plural)
                                            (\<lambda>items. Inr (Some items))))
                               (\<lambda>items. Inr (plural, items))) istio_crds) (\<lambda>ir.
        Inr \<lparr>istio_pods = ip, all_pods = ap, services = sv, endpoints_list = ep,
             net_policies = np, istio_resources = ir\<rparr>)))))) \<and>
      networking_report namespace d = networking_report None d \<and>
      check_networking api namespace = check_networking api None) \<and>
   call_tool py v api flag name (arguments(''namespace'' \<mapsto> Some [])) =
   call_tool py v api flag name (arguments(''namespace'' := None)) \<and>
   (ns \<noteq> [] \<longrightarrow>
      fetch_pod_health api (Some ns) = list_namespaced_pod api ns \<and>
      fetch_metrics api (Some ns) =
        bind_exn (list_node_metrics api) (\<lambda>node_metrics.
        bind_exn (list_namespaced_pod_metrics api ns) (\<lambda>pod_metrics.
        Inr (node_metrics, pod_metrics))) \<and>
      fetch_networking api (Some ns) =
        bind_exn (except_api [] (list_namespaced_pod api ''istio-system'')) (\<lambda>ip.
        bind_exn (list_namespaced_pod api ns) (\<lambda>ap.
        bind_exn (list_namespaced_service api ns) (\<lambda>sv.
        bind_exn (list_namespaced_endpoints api ns) (\<lambda>ep.
        bind_exn (list_namespaced_network_policy api ns) (\<lambda>np.
        bind_exn (map_exn (\<lambda>(grp, version, plural).
                             bind_exn (except_api None
                                         (bind_exn (list_namespaced_custom_object api grp version ns plural)
                                            (\<lambda>items. Inr (Some items))))
                               (\<lambda>items. Inr (plural, items))) istio_crds) (\<lambda>ir.
        Inr \<lparr>istio_pods = ip, all_pods = ap, services = sv, endpoints_list = ep,
             net_policies = np, istio_resources = ir\<rparr>)))))))"
proof (intro conjI ballI impI)
  fix namespace :: "string option"
  assume "namespace \<in> {None, Some []}"
  then have ns: "namespace = None \<or> namespace = Some []" by simp
  show "fetch_pod_health api namespace = list_pod_for_all_namespaces api"
    using ns by (auto simp: fetch_pod_health_def)
  show "check_pod_health v api namespace =
        bind_exn (list_pod_for_all_namespaces api)
          (\<lambda>pods. Inr [TextContent (pod_health_report v None pods)])"
    using ns by (auto simp: check_pod_health_def fetch_pod_health_def pod_health_report_def)
  show "fetch_metrics api namespace =
        bind_exn (list_node_metrics api) (\<lambda>node_metrics.
        bind_exn (list_pod_metrics api) (\<lambda>pod_metrics.
        Inr (node_metrics, pod_metrics)))"
    using ns by (auto simp: fetch_metrics_def)
  show "get_resource_usage py api namespace = get_resource_usage py api None"
    using ns by (auto simp: get_resource_usage_empty)
  show "fetch_networking api namespace =
        bind_exn (except_api [] (list_namespaced_pod api ''istio-system'')) (\<lambda>ip.
        bind_exn (list_pod_for_all_namespaces api) (\<lambda>ap.
        bind_exn (list_service_for_all_namespaces api) (\<lambda>sv.
        bind_exn (list_endpoints_for_all_namespaces api) (\<lambda>ep.
        bind_exn (list_network_policy_for_all_namespaces api) (\<lambda>np.
        bind_exn (map_exn (\<lambda>(grp, version, plural).
                             bind_exn (except_api None
                                         (bind_exn (list_cluster_custom_object api grp version plural)
                                            (\<lambda>items. Inr (Some items))))
                               (\<lambda>items. Inr (plural, items))) istio_crds) (\<lambda>ir.
        Inr \<lparr>istio_pods = ip, all_pods = ap, services = sv, endpoints_list = ep,
             net_policies = np, istio_resources = ir\<rparr>))))))"
  proof -
    from ns have "fetch_networking api namespace = fetch_networking api None"
      by (auto simp: fetch_networking_empty)
    then show ?thesis by (simp only: fetch_networking_cluster)
  qed
  show "networking_report namespace d = networking_report None d"
    using ns by (auto simp: networking_report_def)
  show "check_networking api namespace = check_networking api None"
    using ns by (auto simp: check_networking_empty)
next
  show "call_tool py v api flag name (arguments(''namespace'' \<mapsto> Some [])) =
        call_tool py v api flag name (arguments(''namespace'' := None))"
    by (rule call_tool_empty)
next
  assume "ns \<noteq> []"
  then show "fetch_pod_health api (Some ns) = list_namespaced_pod api ns"
    by (simp add: fetch_pod_health_def truthy_def)
next
  assume "ns \<noteq> []"
  then show "fetch_metrics api (Some ns) =
        bind_exn (list_node_metrics api) (\<lambda>node_metrics.
        bind_exn (list_namespaced_pod_metrics api ns) (\<lambda>pod_metrics.
        Inr (node_metrics, pod_metrics)))"
    by (simp add: fetch_metrics_def truthy_def)
next
  assume "ns \<noteq> []"
  then show "fetch_networking api (Some ns) =
        bind_exn (except_api [] (list_namespaced_pod api ''istio-system'')) (\<lambda>ip.
        bind_exn (list_namespaced_pod api ns) (\<lambda>ap.
        bind_exn (list_namespaced_service api ns) (\<lambda>sv.
        bind_exn (list_namespaced_endpoints api ns) (\<lambda>ep.
        bind_exn (list_namespaced_network_policy api ns) (\<lambda>np.
        bind_exn (map_exn (\<lambda>(grp, version, plural).
                             bind_exn (except_api None
                                         (bind_exn (list_namespaced_custom_object api grp version ns plural)
                                            (\<lambda>items. Inr (Some items))))
                               (\<lambda>items. Inr (plural, items))) istio_crds) (\<lambda>ir.
        Inr \<lparr>istio_pods = ip, all_pods = ap, services = sv, endpoints_list = ep,
             net_policies = np, istio_resources = ir\<rparr>))))))"
    by (rule fetch_networking_namespaced)
qed

theorem empty_namespace_witness:
  "call_tool example_python Http
     (empty_cluster\<lparr>list_pod_for_all_namespaces := Inr [mesh_pod ''kube-system'' ''dns'' [''coredns'']],
                     list_namespaced_pod := (\<lambda>ns. Inl (ApiException 404 ''Not Found''))\<rparr>)
     True ''check_pod_health'' [''namespace'' \<mapsto> Some ''''] =
   ([TextContent
       (''Pod Health Status (All Namespaces):'' @ nl @ rule_double 60 @ nl @ nl @
        ''Summary:'' @ nl @
        ''  '' @ tick @ '' Running: 1'' @ nl @
        nl @ tick @ '' No problem pods detected'' @ nl)], True) \<and>
   call_tool example_python Http
     (empty_cluster\<lparr>list_pod_for_all_namespaces := Inr [mesh_pod ''kube-system'' ''dns'' [''coredns'']],
                     list_namespaced_pod := (\<lambda>ns. Inl (ApiException 404 ''Not Found''))\<rparr>)
     True ''check_pod_health'' [''namespace'' \<mapsto> Some ''prod''] =
   ([TextContent ''Error: Not Found''], True)"
proof -
  let ?api = "empty_cluster\<lparr>list_pod_for_all_namespaces := Inr [mesh_pod ''kube-system'' ''dns'' [''coredns'']],
                     list_namespaced_pod := (\<lambda>ns. Inl (ApiException 404 ''Not Found''))\<rparr>"
  note inst = empty_namespace_is_all_namespaces
    [of ?api Http example_python undefined True "''check_pod_health''" Map.empty "''prod''"]
  have all: "check_pod_health Http ?api (Some []) =
        bind_exn (list_pod_for_all_namespaces ?api)
          (\<lambda>pods. Inr [TextContent (pod_health_report Http None pods)])"
    using inst by blast
  have one: "fetch_pod_health ?api (Some ''prod'') = list_namespaced_pod ?api ''prod''"
    using inst by simp
  have d1: "dispatch example_python Http ?api ''check_pod_health'' [''namespace'' \<mapsto> Some ''''] =
        check_pod_health Http ?api (Some [])"
    by (simp add: dispatch_def arg_get_def)
  have d2: "dispatch example_python Http ?api ''check_pod_health'' [''namespace'' \<mapsto> Some ''prod''] =
        check_pod_health Http ?api (Some ''prod'')"
    by (simp add: dispatch_def arg_get_def)
  have init: "init_kubernetes ?api True = Inr True"
    by (simp add: init_kubernetes_def)
  have 1: "call_tool example_python Http ?api True ''check_pod_health'' [''namespace'' \<mapsto> Some ''''] =
   ([TextContent
       (''Pod Health Status (All Namespaces):'' @ nl @ rule_double 60 @ nl @ nl @
        ''Summary:'' @ nl @
        ''  '' @ tick @ '' Running: 1'' @ nl @
        nl @ tick @ '' No problem pods detected'' @ nl)], True)"
    unfolding call_tool_def call_tool_body_def init d1 all
    by (simp add: pod_health_report_def status_counts_def summary_line_def problem_pods_def
          is_problem_phase_def mesh_pod_def str_opt_def str_eval)
  have 2: "call_tool example_python Http ?api True ''check_pod_health'' [''namespace'' \<mapsto> Some ''prod''] =
   ([TextContent ''Error: Not Found''], True)"
    unfolding call_tool_def call_tool_body_def init d2 check_pod_health_def one
    by simp
  from 1 2 show ?thesis by (rule conjI)
qed

section \<open>The dispatch boundary\<close>

lemma builders_single:
  "get_cluster_info api = Inr r \<Longrightarrow> \<exists>t. r = [TextContent t]"
  "check_node_health api = Inr r \<Longrightarrow> \<exists>t. r = [TextContent t]"
  "check_pod_health v api ns = Inr r \<Longrightarrow> \<exists>t. r = [TextContent t]"
  "get_resource_usage py api ns = Inr r \<Longrightarrow> \<exists>t. r = [TextContent t]"
  "diagnose_cluster api = Inr r \<Longrightarrow> \<exists>t. r = [TextContent t]"
  "get_namespace_summary api = Inr r \<Longrightarrow> \<exists>t. r = [TextContent t]"
  "check_networking api ns = Inr r \<Longrightarrow> \<exists>t. r = [TextContent t]"
  by (auto simp: get_cluster_info_def check_node_health_def check_pod_health_def
        get_resource_usage_def diagnose_cluster_def get_namespace_summary_def
        check_networking_def bind_exn_def
        split: sum.splits exn.splits option.splits if_splits prod.splits)

lemma dispatch_single:
  "dispatch py v api name arguments = Inr r \<Longrightarrow> \<exists>t. r = [TextContent t]"
  unfolding dispatch_def by (auto split: if_splits dest: builders_single)

lemma call_tool_single: "\<exists>t. fst (call_tool py v api flag name arguments) = [TextContent t]"
  by (auto simp: call_tool_def call_tool_body_def split: sum.splits dest: dispatch_single)

lemma call_tool_init_raises:
  "init_kubernetes api flag = Inl e \<Longrightarrow>
   call_tool py v api flag name arguments = ([TextContent (''Error: '' @ exn_str py e)], flag)"
  by (simp add: call_tool_def call_tool_body_def)

lemma call_tool_raises:
  "init_kubernetes api flag = Inr flag' \<Longrightarrow> dispatch py v api name arguments = Inl e \<Longrightarrow>
   call_tool py v api flag name arguments = ([TextContent (''Error: '' @ exn_str py e)], flag')"
  by (simp add: call_tool_def call_tool_body_def)

lemma call_tool_returns:
  "init_kubernetes api flag = Inr flag' \<Longrightarrow> dispatch py v api name arguments = Inr r \<Longrightarrow>
   call_tool py v api flag name arguments = (r, flag')"
  by (simp add: call_tool_def call_tool_body_def)

lemma dispatch_names:
  "dispatch py v api ''get_cluster_info'' arguments = get_cluster_info api"
  "dispatch py v api ''check_node_health'' arguments = check_node_health api"
  "dispatch py v api ''check_pod_health'' arguments =
     check_pod_health v api (arg_get arguments ''namespace'')"
  "dispatch py v api ''get_resource_usage'' arguments =
     get_resource_usage py api (arg_get arguments ''namespace'')"
  "dispatch py v api ''diagnose_cluster'' arguments = diagnose_cluster api"
  "dispatch py v api ''get_namespace_summary'' arguments = get_namespace_summary api"
  "dispatch py Http api ''check_networking'' arguments =
     check_networking api (arg_get arguments ''namespace'')"
  by (simp_all add: dispatch_def)

lemma fetch_raises:
  "fetch_cluster_info api = Inl e \<Longrightarrow> get_cluster_info api = Inl e"
  "fetch_node_health api = Inl e \<Longrightarrow> check_node_health api = Inl e"
  "fetch_pod_health api ns = Inl e \<Longrightarrow> check_pod_health v api ns = Inl e"
  "fetch_diagnostics api = Inl e \<Longrightarrow> diagnose_cluster api = Inl e"
  "fetch_namespace_summary api = Inl e \<Longrightarrow> get_namespace_summary api = Inl e"
  "fetch_networking api ns = Inl e \<Longrightarrow> check_networking api ns = Inl e"
  "fetch_networking api ns = Inr d \<Longrightarrow> networking_report ns d = Inl e \<Longrightarrow>
     check_networking api ns = Inl e"
  by (simp_all add: get_cluster_info_def check_node_health_def check_pod_health_def
        diagnose_cluster_def get_namespace_summary_def check_networking_def)

lemma usage_raises:
  "usage_report py api ns = Inl (ApiException 404 msg) \<Longrightarrow>
   get_resource_usage py api ns =
     Inr [TextContent (''Resource Usage:'' @ nl @ rule_double 60 @ nl @ nl @
                       ''Metrics Server not available'' @ nl)]"
  "usage_report py api ns = Inl (ApiException status msg) \<Longrightarrow> status \<noteq> 404 \<Longrightarrow>
   get_resource_usage py api ns = Inr [TextContent (''Error getting metrics: '' @ msg)]"
  "usage_report py api ns = Inl e \<Longrightarrow> \<forall>status msg. e \<noteq> ApiException status msg \<Longrightarrow>
   get_resource_usage py api ns = Inl e"
  "fetch_metrics api ns = Inl e \<Longrightarrow> usage_report py api ns = Inl e"
  by (auto simp: get_resource_usage_def usage_report_def split: exn.splits)

lemma fetch_crd_update:
  "fetch_crd (api\<lparr>list_namespaced_pod := f\<rparr>) ns = fetch_crd api ns"
  by (rule ext) (simp add: fetch_crd_def split: prod.splits option.splits)

lemma istio_system_swallowed:
  assumes "list_namespaced_pod api ''istio-system'' = Inl (ApiException status msg)"
    and "truthy ns \<noteq> Some ''istio-system''"
  shows "fetch_networking api ns =
         fetch_networking
           (api\<lparr>list_namespaced_pod := (list_namespaced_pod api)(''istio-system'' := Inr [])\<rparr>) ns"
  using assms
  by (cases "truthy ns") (simp_all add: fetch_networking_def except_api_def fetch_crd_update)

lemma crd_swallowed:
  assumes "(case truthy ns of
              Some n \<Rightarrow> list_namespaced_custom_object api grp version n plural
            | None \<Rightarrow> list_cluster_custom_object api grp version plural) =
           Inl (ApiException status msg)"
  shows "fetch_crd api ns (grp, version, plural) = Inr (plural, None)"
  using assms by (simp add: fetch_crd_def except_api_def)

text \<open>
  Claim C5, as the source has it. A tool call always returns one text content. When the
  client initialisation raises, the text is \<^verbatim>\<open>Error: {message}\<close> and the flag stays as
  it was. After a successful initialisation, every exception that leaves a report
  builder becomes \<^verbatim>\<open>Error: {message}\<close>: so does every exception of the fetch of
  \<^verbatim>\<open>get_cluster_info\<close>, \<^verbatim>\<open>check_node_health\<close>, \<^verbatim>\<open>check_pod_health\<close>, \<^verbatim>\<open>diagnose_cluster\<close>,
  \<^verbatim>\<open>get_namespace_summary\<close> and \<^verbatim>\<open>check_networking\<close>, and every exception of the formatting of
  \<^verbatim>\<open>check_networking\<close>. Two kinds of exception never leave their builder:

  \<^item> In \<^verbatim>\<open>get_resource_usage\<close>, an \<^verbatim>\<open>ApiException\<close> raised in the \<^verbatim>\<open>try\<close> block (the fetch and
    the formatting; every exception of the fetch is one of the block) gives the report
    \<^verbatim>\<open>Metrics Server not available\<close> when its status is 404 and the text
    \<^verbatim>\<open>Error getting metrics: {message}\<close> for every other status; any other exception of the
    block becomes \<^verbatim>\<open>Error: {message}\<close>.
  \<^item> In the fetch of \<^verbatim>\<open>check_networking\<close>, an \<^verbatim>\<open>ApiException\<close> of the pod listing of
    \<^verbatim>\<open>istio-system\<close> is swallowed (the fetch goes on as if that listing had returned no
    pod, unless \<^verbatim>\<open>istio-system\<close> is also the namespace asked for), and an \<^verbatim>\<open>ApiException\<close> of
    the listing of an Istio custom resource is swallowed (the resource counts as not
    installed).
\<close>

theorem dispatch_boundary:
  "(\<exists>t. fst (call_tool py v api flag name arguments) = [TextContent t]) \<and>
   (init_kubernetes api flag = Inl e \<longrightarrow>
      call_tool py v api flag name arguments = ([TextContent (''Error: '' @ exn_str py e)], flag)) \<and>
   (init_kubernetes api flag = Inr flag' \<longrightarrow>
      (dispatch py v api name arguments = Inl e \<longrightarrow>
         call_tool py v api flag name arguments =
           ([TextContent (''Error: '' @ exn_str py e)], flag')) \<and>
      (fetch_cluster_info api = Inl e \<longrightarrow>
         call_tool py v api flag ''get_cluster_info'' arguments =
           ([TextContent (''Error: '' @ exn_str py e)], flag')) \<and>
      (fetch_node_health api = Inl e \<longrightarrow>
         call_tool py v api flag ''check_node_health'' arguments =
           ([TextContent (''Error: '' @ exn_str py e)], flag')) \<and>
      (fetch_pod_health api (arg_get arguments ''namespace'') = Inl e \<longrightarrow>
         call_tool py v api flag ''check_pod_health'' arguments =
           ([TextContent (''Error: '' @ exn_str py e)], flag')) \<and>
      (fetch_diagnostics api = Inl e \<longrightarrow>
         call_tool py v api flag ''diagnose_cluster'' arguments =
           ([TextContent (''Error: '' @ exn_str py e)], flag')) \<and>
      (fetch_namespace_summary api = Inl e \<longrightarrow>
         call_tool py v api flag ''get_namespace_summary'' arguments =
           ([TextContent (''Error: '' @ exn_str py e)], flag')) \<and>
      (fetch_networking api (arg_get arguments ''namespace'') = Inl e \<longrightarrow>
         call_tool py Http api flag ''check_networking'' arguments =
           ([TextContent (''Error: '' @ exn_str py e)], flag')) \<and>
      (fetch_networking api (arg_get arguments ''namespace'') = Inr d \<and>
       networking_report (arg_get arguments ''namespace'') d = Inl e \<longrightarrow>
         call_tool py Http api flag ''check_networking'' arguments =
           ([TextContent (''Error: '' @ exn_str py e)], flag')) \<and>
      (usage_report py api (arg_get arguments ''namespace'') = Inl (ApiException 404 msg) \<longrightarrow>
         call_tool py v api flag ''get_resource_usage'' arguments =
           ([TextContent (''Resource Usage:'' @ nl @ rule_double 60 @ nl @ nl @
                          ''Metrics Server not available'' @ nl)], flag')) \<and>
      (usage_report py api (arg_get arguments ''namespace'') = Inl (ApiException status msg) \<and>
       status \<noteq> 404 \<longrightarrow>
         call_tool py v api flag ''get_resource_usage'' arguments =
           ([TextContent (''Error getting metrics: '' @ msg)], flag')) \<and>
      (usage_report py api (arg_get arguments ''namespace'') = Inl e \<and>
       (\<forall>status msg. e \<noteq> ApiException status msg) \<longrightarrow>
         call_tool py v api flag ''get_resource_usage'' arguments =
           ([TextContent (''Error: '' @ exn_str py e)], flag'))) \<and>
   (fetch_metrics api ns = Inl e \<longrightarrow> usage_report py api ns = Inl e) \<and>
   (list_namespaced_pod api ''istio-system'' = Inl (ApiException status msg) \<and>
    truthy ns \<noteq> Some ''istio-system'' \<longrightarrow>
      fetch_networking api ns =
      fetch_networking
        (api\<lparr>list_namespaced_pod := (list_namespaced_pod api)(''istio-system'' := Inr [])\<rparr>) ns) \<and>
   ((case truthy ns of
       Some n \<Rightarrow> list_namespaced_custom_object api grp version n plural
     | None \<Rightarrow> list_cluster_custom_object api grp version plural) =
    Inl (ApiException status msg) \<longrightarrow>
      fetch_crd api ns (grp, version, plural) = Inr (plural, None))"
proof (intro conjI impI)
  show "\<exists>t. fst (call_tool py v api flag name arguments) = [TextContent t]"
    by (rule call_tool_single)
next
  assume "init_kubernetes api flag = Inl e"
  then show "call_tool py v api flag name arguments =
             ([TextContent (''Error: '' @ exn_str py e)], flag)"
    by (rule call_tool_init_raises)
next
  assume "init_kubernetes api flag = Inr flag'" "dispatch py v api name arguments = Inl e"
  then show "call_tool py v api flag name arguments =
             ([TextContent (''Error: '' @ exn_str py e)], flag')"
    by (rule call_tool_raises)
next
  assume "init_kubernetes api flag = Inr flag'" "fetch_cluster_info api = Inl e"
  then show "call_tool py v api flag ''get_cluster_info'' arguments =
             ([TextContent (''Error: '' @ exn_str py e)], flag')"
    by (intro call_tool_raises) (simp_all add: dispatch_names fetch_raises)
next
  assume "init_kubernetes api flag = Inr flag'" "fetch_node_health api = Inl e"
  then show "call_tool py v api flag ''check_node_health'' arguments =
             ([TextContent (''Error: '' @ exn_str py e)], flag')"
    by (intro call_tool_raises) (simp_all add: dispatch_names fetch_raises)
next
  assume "init_kubernetes api flag = Inr flag'"
    "fetch_pod_health api (arg_get arguments ''namespace'') = Inl e"
  then show "call_tool py v api flag ''check_pod_health'' arguments =
             ([TextContent (''Error: '' @ exn_str py e)], flag')"
    by (intro call_tool_raises) (simp_all add: dispatch_names fetch_raises)
next
  assume "init_kubernetes api flag = Inr flag'" "fetch_diagnostics api = Inl e"
  then show "call_tool py v api flag ''diagnose_cluster'' arguments =
             ([TextContent (''Error: '' @ exn_str py e)], flag')"
    by (intro call_tool_raises) (simp_all add: dispatch_names fetch_raises)
next
  assume "init_kubernetes api flag = Inr flag'" "fetch_namespace_summary api = Inl e"
  then show "call_tool py v api flag ''get_namespace_summary'' arguments =
             ([TextContent (''Error: '' @ exn_str py e)], flag')"
    by (intro call_tool_raises) (simp_all add: dispatch_names fetch_raises)
next
  assume "init_kubernetes api flag = Inr flag'"
    "fetch_networking api (arg_get arguments ''namespace'') = Inl e"
  then show "call_tool py Http api flag ''check_networking'' arguments =
             ([TextContent (''Error: '' @ exn_str py e)], flag')"
    by (intro call_tool_raises) (simp_all add: dispatch_names fetch_raises)
next
  assume "init_kubernetes api flag = Inr flag'"
    "fetch_networking api (arg_get arguments ''namespace'') = Inr d \<and>
     networking_report (arg_get arguments ''namespace'') d = Inl e"
  then show "call_tool py Http api flag ''check_networking'' arguments =
             ([TextContent (''Error: '' @ exn_str py e)], flag')"
    by (intro call_tool_raises) (simp_all add: dispatch_names fetch_raises)
next
  assume "init_kubernetes api flag = Inr flag'"
    "usage_report py api (arg_get arguments ''namespace'') = Inl (ApiException 404 msg)"
  then show "call_tool py v api flag ''get_resource_usage'' arguments =
           ([TextContent (''Resource Usage:'' @ nl @ rule_double 60 @ nl @ nl @
                          ''Metrics Server not available'' @ nl)], flag')"
    by (intro call_tool_returns) (simp_all add: dispatch_names usage_raises)
next
  assume "init_kubernetes api flag = Inr flag'"
    "usage_report py api (arg_get arguments ''namespace'') = Inl (ApiException status msg) \<and>
     status \<noteq> 404"
  then show "call_tool py v api flag ''get_resource_usage'' arguments =
           ([TextContent (''Error getting metrics: '' @ msg)], flag')"
    by (intro call_tool_returns) (simp_all add: dispatch_names usage_raises)
next
  assume "init_kubernetes api flag = Inr flag'"
    "usage_report py api (arg_get arguments ''namespace'') = Inl e \<and>
     (\<forall>status msg. e \<noteq> ApiException status msg)"
  then show "call_tool py v api flag ''get_resource_usage'' arguments =
           ([TextContent (''Error: '' @ exn_str py e)], flag')"
    by (intro call_tool_raises) (simp_all add: dispatch_names usage_raises)
next
  assume "fetch_metrics api ns = Inl e"
  then show "usage_report py api ns = Inl e"
    by (rule usage_raises)
next
  assume "list_namespaced_pod api ''istio-system'' = Inl (ApiException status msg) \<and>
          truthy ns \<noteq> Some ''istio-system''"
  then show "fetch_networking api ns =
      fetch_networking
        (api\<lparr>list_namespaced_pod := (list_namespaced_pod api)(''istio-system'' := Inr [])\<rparr>) ns"
    by (intro istio_system_swallowed) simp_all
next
  assume "(case truthy ns of
       Some n \<Rightarrow> list_namespaced_custom_object api grp version n plural
     | None \<Rightarrow> list_cluster_custom_object api grp version plural) =
    Inl (ApiException status msg)"
  then show "fetch_crd api ns (grp, version, plural) = Inr (plural, None)"
    by (rule crd_swallowed)
qed

theorem dispatch_boundary_witness:
  "call_tool example_python Http
     (empty_cluster\<lparr>list_node := Inl (OtherException ''Connection refused''),
                     list_node_metrics := Inl (ApiException 503 ''Service Unavailable'')\<rparr>)
     True ''check_node_health'' Map.empty =
   ([TextContent ''Error: Connection refused''], True) \<and>
   call_tool example_python Http
     (empty_cluster\<lparr>list_node := Inl (OtherException ''Connection refused''),
                     list_node_metrics := Inl (ApiException 503 ''Service Unavailable'')\<rparr>)
     True ''get_resource_usage'' Map.empty =
   ([TextContent ''Error getting metrics: Service Unavailable''], True)"
proof -
  let ?api = "empty_cluster\<lparr>list_node := Inl (OtherException ''Connection refused''),
                     list_node_metrics := Inl (ApiException 503 ''Service Unavailable'')\<rparr>"
  have init: "init_kubernetes ?api True = Inr True"
    by (simp add: init_kubernetes_def)
  have nodes: "fetch_node_health ?api = Inl (OtherException ''Connection refused'')"
    by (simp add: fetch_node_health_def)
  have usage: "usage_report example_python ?api (arg_get Map.empty ''namespace'') =
               Inl (ApiException 503 ''Service Unavailable'')"
    by (simp add: usage_report_def fetch_metrics_def arg_get_def)
  have 1: "call_tool example_python Http ?api True ''check_node_health'' Map.empty =
           ([TextContent ''Error: Connection refused''], True)"
    using dispatch_boundary [of example_python Http ?api True _ Map.empty
        "OtherException ''Connection refused''" True] init nodes
    by simp
  have 2: "call_tool example_python Http ?api True ''get_resource_usage'' Map.empty =
           ([TextContent ''Error getting metrics: Service Unavailable''], True)"
    using dispatch_boundary [of example_python Http ?api True _ Map.empty _ True _
        "''Service Unavailable''" 503] init usage
    by simp
  from 1 2 show ?thesis by (rule conjI)
qed

text \<open>
  Claim C5 as stated fails: with the metrics API answering 500, the text of the tool
  call is \<^verbatim>\<open>Error getting metrics: {message}\<close>, built inside the report builder, not
  \<^verbatim>\<open>Error: {message}\<close>.
\<close>

theorem metrics_error_handled_in_builder:
  "call_tool example_python Http
     (empty_cluster\<lparr>list_node_metrics := Inl (ApiException 500 ''Internal Server Error'')\<rparr>)
     True ''get_resource_usage'' Map.empty =
   ([TextContent ''Error getting metrics: Internal Server Error''], True)"
  by (simp add: call_tool_def call_tool_body_def init_kubernetes_def dispatch_def arg_get_def
        get_resource_usage_def usage_report_def fetch_metrics_def empty_cluster_def)

section \<open>Unknown tools\<close>

text \<open>
  Claim C6, as the source has it. When the client initialisation succeeds, as it does
  when it has already run, a name outside the registry of the variant yields the text
  \<^verbatim>\<open>Unknown tool: {name}\<close> as an ordinary result. When the initialisation raises, the
  result is the text \<^verbatim>\<open>Error: {message}\<close> of that exception, for an unknown name as for
  any other, and the flag stays as it was. In both cases the call returns one text
  content.
\<close>

theorem unknown_tool:
  "(name \<notin> set (map tool_name (list_tools v)) \<and> init_kubernetes api flag = Inr flag' \<longrightarrow>
      call_tool py v api flag name arguments =
        ([TextContent (''Unknown tool: '' @ name)], flag')) \<and>
   init_kubernetes api True = Inr True \<and>
   (init_kubernetes api flag = Inl e \<longrightarrow>
      call_tool py v api flag name arguments =
        ([TextContent (''Error: '' @ exn_str py e)], flag)) \<and>
   (\<exists>t. fst (call_tool py v api flag name arguments) = [TextContent t])"
proof (intro conjI impI)
  assume "name \<notin> set (map tool_name (list_tools v)) \<and> init_kubernetes api flag = Inr flag'"
  then show "call_tool py v api flag name arguments =
             ([TextContent (''Unknown tool: '' @ name)], flag')"
    by (cases v) (auto simp: call_tool_def call_tool_body_def dispatch_def list_tools_def)
next
  show "init_kubernetes api True = Inr True"
    by (simp add: init_kubernetes_def)
next
  assume "init_kubernetes api flag = Inl e"
  then show "call_tool py v api flag name arguments =
             ([TextContent (''Error: '' @ exn_str py e)], flag)"
    by (rule call_tool_init_raises)
next
  show "\<exists>t. fst (call_tool py v api flag name arguments) = [TextContent t]"
    by (rule call_tool_single)
qed

theorem unknown_tool_witness:
  "call_tool example_python Http empty_cluster False ''nonexistent_tool'' Map.empty =
   ([TextContent ''Unknown tool: nonexistent_tool''], True) \<and>
   call_tool example_python Local
     (empty_cluster\<lparr>load_incluster_config := Some (OtherException ''Permission denied'')\<rparr>)
     False ''check_networking'' Map.empty =
   ([TextContent ''Error: Permission denied''], False)"
proof -
  have 1: "''nonexistent_tool'' \<notin> set (map tool_name (list_tools Http))"
    by (simp add: list_tools_def)
  have 2: "init_kubernetes empty_cluster False = Inr True"
    by (simp add: init_kubernetes_def empty_cluster_def)
  have 3: "init_kubernetes
             (empty_cluster\<lparr>load_incluster_config := Some (OtherException ''Permission denied'')\<rparr>)
             False = Inl (OtherException ''Permission denied'')"
    by (simp add: init_kubernetes_def)
  have a: "call_tool example_python Http empty_cluster False ''nonexistent_tool'' Map.empty =
           ([TextContent ''Unknown tool: nonexistent_tool''], True)"
    using unknown_tool [of "''nonexistent_tool''" Http empty_cluster False True example_python
        Map.empty] 1 2
    by simp
  have b: "call_tool example_python Local
     (empty_cluster\<lparr>load_incluster_config := Some (OtherException ''Permission denied'')\<rparr>)
     False ''check_networking'' Map.empty =
   ([TextContent ''Error: Permission denied''], False)"
    using unknown_tool [of "''check_networking''" Local
        "empty_cluster\<lparr>load_incluster_config := Some (OtherException ''Permission denied'')\<rparr>"
        False _ example_python Map.empty "OtherException ''Permission denied''"] 3
    by simp
  from a b show ?thesis by (rule conjI)
qed

text \<open>
  Claim C6 as stated fails: \<^verbatim>\<open>init_kubernetes\<close> runs before the name is looked at, so
  where no cluster configuration can be loaded the unknown name yields the error text of
  the configuration, not \<^verbatim>\<open>Unknown tool\<close>.
\<close>

theorem unknown_tool_without_config:
  "call_tool example_python Http
     (empty_cluster\<lparr>load_incluster_config := Some (ConfigException ''Service host/port is not set.''),
                     load_kube_config := Some (ConfigException ''Invalid kube-config file. No configuration found.'')\<rparr>)
     False ''nonexistent_tool'' Map.empty =
   ([TextContent ''Error: Invalid kube-config file. No configuration found.''], False)"
  by (simp add: call_tool_def call_tool_body_def init_kubernetes_def empty_cluster_def)

section \<open>Metrics not available\<close>

text \<open>
  Claim C9. When the fetch of \<^verbatim>\<open>get_resource_usage\<close> raises an \<^verbatim>\<open>ApiException\<close> with status
  404, the tool returns the report that holds only the heading and
  \<^verbatim>\<open>Metrics Server not available\<close>: no node line, no pod ranking, no exception.
\<close>

theorem metrics_unavailable:
  assumes "fetch_metrics api namespace = Inl (ApiException 404 msg)"
  shows "get_resource_usage py api namespace =
         Inr [TextContent (''Resource Usage:'' @ nl @ rule_double 60 @ nl @ nl @
                           ''Metrics Server not available'' @ nl)]"
  using assms by (simp add: get_resource_usage_def usage_report_def)

theorem metrics_unavailable_witness:
  "get_resource_usage example_python
     (empty_cluster\<lparr>list_pod_metrics := Inl (ApiException 404 ''Not Found'')\<rparr>) None =
   Inr [TextContent (''Resource Usage:'' @ nl @ rule_double 60 @ nl @ nl @
                     ''Metrics Server not available'' @ nl)]"
proof -
  have "fetch_metrics (empty_cluster\<lparr>list_pod_metrics := Inl (ApiException 404 ''Not Found'')\<rparr>) None =
        Inl (ApiException 404 ''Not Found'')"
    by (simp add: fetch_metrics_def empty_cluster_def)
  then show ?thesis by (rule metrics_unavailable)
qed

section \<open>Problem pods\<close>

lemma problem_pods_filter:
  "problem_pods pods =
   map (\<lambda>p. \<lparr>pp_name = pod_name p, pp_namespace = pod_namespace p, pp_phase = pod_phase p,
              pp_issues = concat (map container_issue
                            (case pod_container_statuses p of None \<Rightarrow> [] | Some cs \<Rightarrow> cs))\<rparr>)
     (filter (\<lambda>p. pod_phase p = Some ''Failed'' \<or> pod_phase p = Some ''Unknown'' \<or>
                   pod_phase p = Some ''Pending'') pods)"
  by (induction pods) (auto simp: problem_pods_def is_problem_phase_def)

text \<open>
  Claim C4. The problem pods are exactly the pods whose phase is Failed, Unknown or
  Pending, in order, each with the issues of its container statuses. A ready container
  has no issue; a container that is not ready has the one issue of its waiting reason if
  it has a waiting state (whatever its terminated state), else the one of its terminated
  reason, else none: never more than one.
\<close>

theorem pod_health_classification:
  "problem_pods pods =
   map (\<lambda>p. \<lparr>pp_name = pod_name p, pp_namespace = pod_namespace p, pp_phase = pod_phase p,
              pp_issues = concat (map container_issue
                            (case pod_container_statuses p of None \<Rightarrow> [] | Some cs \<Rightarrow> cs))\<rparr>)
     (filter (\<lambda>p. pod_phase p = Some ''Failed'' \<or> pod_phase p = Some ''Unknown'' \<or>
                   pod_phase p = Some ''Pending'') pods) \<and>
   (cs_ready c \<longrightarrow> container_issue c = []) \<and>
   (\<not> cs_ready c \<and> cs_waiting c = Some w \<longrightarrow>
      container_issue c = [cs_name c @ '': '' @ str_opt w]) \<and>
   (\<not> cs_ready c \<and> cs_waiting c = None \<and> cs_terminated c = Some t \<longrightarrow>
      container_issue c = [cs_name c @ '': Terminated - '' @ str_opt t]) \<and>
   (\<not> cs_ready c \<and> cs_waiting c = None \<and> cs_terminated c = None \<longrightarrow> container_issue c = []) \<and>
   length (container_issue c) \<le> 1"
  by (auto simp: problem_pods_filter container_issue_def split: option.splits)

theorem pod_health_classification_witness:
  "problem_pods
     [\<lparr>pod_name = ''web'', pod_namespace = ''default'', pod_phase = Some ''Pending'',
       pod_container_statuses =
         Some [\<lparr>cs_name = ''app'', cs_ready = False, cs_restart_count = 0,
                 cs_waiting = Some (Some ''ImagePullBackOff''),
                 cs_terminated = Some (Some ''Error'')\<rparr>],
       pod_containers = None\<rparr>,
      \<lparr>pod_name = ''db'', pod_namespace = ''default'', pod_phase = Some ''Running'',
       pod_container_statuses = None, pod_containers = None\<rparr>] =
   [\<lparr>pp_name = ''web'', pp_namespace = ''default'', pp_phase = Some ''Pending'',
     pp_issues = [''app: ImagePullBackOff'']\<rparr>]"
  using pod_health_classification
    [of "[\<lparr>pod_name = ''web'', pod_namespace = ''default'', pod_phase = Some ''Pending'',
       pod_container_statuses =
         Some [\<lparr>cs_name = ''app'', cs_ready = False, cs_restart_count = 0,
                 cs_waiting = Some (Some ''ImagePullBackOff''),
                 cs_terminated = Some (Some ''Error'')\<rparr>],
       pod_containers = None\<rparr>,
      \<lparr>pod_name = ''db'', pod_namespace = ''default'', pod_phase = Some ''Running'',
       pod_container_statuses = None, pod_containers = None\<rparr>]"
     "\<lparr>cs_name = ''app'', cs_ready = False, cs_restart_count = 0,
                 cs_waiting = Some (Some ''ImagePullBackOff''),
                 cs_terminated = Some (Some ''Error'')\<rparr>"
     "Some ''ImagePullBackOff''" "Some ''Error''"]
  by (simp add: str_opt_def)

section \<open>Diagnostics listings\<close>

text \<open>
  Claim C3, as the source has it. With all four collections empty the report is the
  healthy message. Otherwise each non-empty collection has its block; the three pod
  collections are capped listings (ten entries, then \<^verbatim>\<open>... and N more\<close> exactly when
  there are more than ten), while the node issues are listed in full.
\<close>

theorem diagnostics_listing:
  "diagnose_report issues failing pending high_restart =
   ''Cluster Diagnostics:'' @ nl @ rule_double 60 @ nl @ nl @
   (if issues = [] \<and> failing = [] \<and> pending = [] \<and> high_restart = [] then
      tick @ '' No critical issues detected'' @ nl @ nl @ ''Cluster appears healthy!'' @ nl
    else
      warn @ '' Issues Detected:'' @ nl @ rule_single 60 @ nl @ nl @
      (if issues = [] then [] else ''Node Issues:'' @ nl @ listing issues @ nl) @
      (if failing = [] then []
       else ''Failed Pods ('' @ str_nat (length failing) @ ''):'' @ nl @
            capped_listing 10 failing @ nl) @
      (if pending = [] then []
       else ''Pending Pods ('' @ str_nat (length pending) @ ''):'' @ nl @
            capped_listing 10 pending @ nl) @
      (if high_restart = [] then []
       else ''Pods with High Restart Count ('' @ str_nat (length high_restart) @ ''):'' @ nl @
            capped_listing 10 high_restart)) \<and>
   (length xs \<le> 10 \<longrightarrow> capped_listing 10 xs = listing xs) \<and>
   (10 < length xs \<longrightarrow>
      capped_listing 10 xs =
      listing (take 10 xs) @ ''  ... and '' @ str_nat (length xs - 10) @ '' more'' @ nl) \<and>
   length (take 10 xs) = min 10 (length xs)"
  by (simp add: diagnose_report_def listing_def capped_listing_def min_def)

theorem diagnostics_listing_witness:
  "diagnose_report [] 
     (failing_pods [failed_pod ''p01'', failed_pod ''p02'', failed_pod ''p03'', failed_pod ''p04'',
                    failed_pod ''p05'', failed_pod ''p06'', failed_pod ''p07'', failed_pod ''p08'',
                    failed_pod ''p09'', failed_pod ''p10'', failed_pod ''p11'', failed_pod ''p12'',
                    failed_pod ''p13'', failed_pod ''p14'', failed_pod ''p15'']) [] [] =
   ''Cluster Diagnostics:'' @ nl @ rule_double 60 @ nl @ nl @
   warn @ '' Issues Detected:'' @ nl @ rule_single 60 @ nl @ nl @
   ''Failed Pods (15):'' @ nl @
   ''  - default/p01'' @ nl @
   ''  - default/p02'' @ nl @
   ''  - default/p03'' @ nl @
   ''  - default/p04'' @ nl @
   ''  - default/p05'' @ nl @
   ''  - default/p06'' @ nl @
   ''  - default/p07'' @ nl @
   ''  - default/p08'' @ nl @
   ''  - default/p09'' @ nl @
   ''  - default/p10'' @ nl @
   ''  ... and 5 more'' @ nl @
   nl"
proof -
  let ?f = "failing_pods [failed_pod ''p01'', failed_pod ''p02'', failed_pod ''p03'', failed_pod ''p04'',
                    failed_pod ''p05'', failed_pod ''p06'', failed_pod ''p07'', failed_pod ''p08'',
                    failed_pod ''p09'', failed_pod ''p10'', failed_pod ''p11'', failed_pod ''p12'',
                    failed_pod ''p13'', failed_pod ''p14'', failed_pod ''p15'']"
  have len: "10 < length ?f" by (simp add: failing_pods_def failed_pod_def)
  have "capped_listing 10 ?f =
        listing (take 10 ?f) @ ''  ... and '' @ str_nat (length ?f - 10) @ '' more'' @ nl"
    using diagnostics_listing [of "[]" ?f "[]" "[]" ?f] len by blast
  moreover have "diagnose_report [] ?f [] [] =
     ''Cluster Diagnostics:'' @ nl @ rule_double 60 @ nl @ nl @
     warn @ '' Issues Detected:'' @ nl @ rule_single 60 @ nl @ nl @
     ''Failed Pods ('' @ str_nat (length ?f) @ ''):'' @ nl @ capped_listing 10 ?f @ nl"
    using diagnostics_listing [of "[]" ?f "[]" "[]" ?f] len by auto
  ultimately show ?thesis
    by (simp add: failing_pods_def failed_pod_def listing_def str_eval)
qed

text \<open>
  Claim C3 as stated fails for the node issues: eleven nodes that are not ready give
  eleven lines and no \<^verbatim>\<open>... and 1 more\<close>.
\<close>

theorem node_issues_not_capped:
  "diagnose_report
     (node_issues [unready_node ''n01'', unready_node ''n02'', unready_node ''n03'',
                   unready_node ''n04'', unready_node ''n05'', unready_node ''n06'',
                   unready_node ''n07'', unready_node ''n08'', unready_node ''n09'',
                   unready_node ''n10'', unready_node ''n11'']) [] [] [] =
   ''Cluster Diagnostics:'' @ nl @ rule_double 60 @ nl @ nl @
   warn @ '' Issues Detected:'' @ nl @ rule_single 60 @ nl @ nl @
   ''Node Issues:'' @ nl @
   ''  - Node n01 is not Ready'' @ nl @
   ''  - Node n02 is not Ready'' @ nl @
   ''  - Node n03 is not Ready'' @ nl @
   ''  - Node n04 is not Ready'' @ nl @
   ''  - Node n05 is not Ready'' @ nl @
   ''  - Node n06 is not Ready'' @ nl @
   ''  - Node n07 is not Ready'' @ nl @
   ''  - Node n08 is not Ready'' @ nl @
   ''  - Node n09 is not Ready'' @ nl @
   ''  - Node n10 is not Ready'' @ nl @
   ''  - Node n11 is not Ready'' @ nl @
   nl"
  by (simp add: diagnose_report_def node_issues_def unready_node_def)

end
